theory Spec2Isabelle
  imports Complex_Main "HOL-Library.Word"
begin

unbundle bit_operations_syntax

section \<open>Python values used by the cooler bridge\<close>

text \<open>
  A Python \<open>bytes\<close> or \<open>bytearray\<close> object is a list of 8-bit words; a Python
  \<open>int\<close> is an unbounded \<open>int\<close>. The exceptions the modelled code can raise are
  values of \<open>error\<close>: \<open>IndexError\<close> for an index out of range, \<open>StructError\<close>
  for \<open>struct.error\<close> (a value that does not fit the requested format),
  \<open>AttributeError\<close> for a method an object does not have, and \<open>ValueError\<close> and
  \<open>OverflowError\<close> for a float that has no integer value.
\<close>

type_synonym byte = "8 word"

datatype error = IndexError | StructError | AttributeError | ValueError | OverflowError

text \<open>\<open>data[i]\<close> for a constant, non-negative index \<open>i\<close>.\<close>

definition getitem :: "'a list \<Rightarrow> nat \<Rightarrow> error + 'a" where
  "getitem xs i = (if i < length xs then Inr (xs ! i) else Inl IndexError)"

text \<open>
  \<open>data[lo:hi]\<close>: a slice never raises; a negative bound counts from the end and
  both bounds are clamped to the length.
\<close>

definition slice_bound :: "nat \<Rightarrow> int \<Rightarrow> nat" where
  "slice_bound n i = (if i < 0 then nat (max 0 (int n + i)) else min n (nat i))"

definition slice :: "'a list \<Rightarrow> int \<Rightarrow> int \<Rightarrow> 'a list" where
  "slice xs lo hi =
     (let l = slice_bound (length xs) lo; h = slice_bound (length xs) hi
      in take (h - l) (drop l xs))"

text \<open>\<open>struct.pack('B', v)\<close>, \<open>struct.pack('b', v)\<close> and \<open>struct.pack('>H', v)\<close>.\<close>

definition pack_B :: "int \<Rightarrow> error + byte list" where
  "pack_B v = (if 0 \<le> v \<and> v \<le> 255 then Inr [word_of_int v] else Inl StructError)"

definition pack_b :: "int \<Rightarrow> error + byte list" where
  "pack_b v = (if - 128 \<le> v \<and> v \<le> 127 then Inr [word_of_int v] else Inl StructError)"

definition pack_H_be :: "int \<Rightarrow> error + byte list" where
  "pack_H_be v =
     (if 0 \<le> v \<and> v \<le> 65535
      then Inr [word_of_int (v div 256), word_of_int (v mod 256)]
      else Inl StructError)"

text \<open>\<open>str(n)\<close> for a Python int: decimal digits, with a leading minus sign.\<close>

definition digit_char :: "nat \<Rightarrow> char" where
  "digit_char d = ''0123456789'' ! d"

fun str_nat :: "nat \<Rightarrow> string" where
  "str_nat n = (if n < 10 then [digit_char n] else str_nat (n div 10) @ [digit_char (n mod 10)])"

declare str_nat.simps [simp del]

definition str_int :: "int \<Rightarrow> string" where
  "str_int i = (if i < 0 then ''-'' @ str_nat (nat (- i)) else str_nat (nat i))"

text \<open>
  A Python float is a finite value, taken as the real number it denotes, or one of
  \<open>nan\<close>, \<open>inf\<close> and \<open>-inf\<close>. \<open>round(x)\<close> of a finite float is the nearest
  integer, a tie going to the even neighbour; \<open>round(nan)\<close> raises \<open>ValueError\<close>
  and \<open>round\<close> of an infinity raises \<open>OverflowError\<close>.
\<close>

datatype py_float = Finite real | NaN | PosInf | NegInf

definition py_round :: "real \<Rightarrow> int" where
  "py_round x =
     (let f = \<lfloor>x\<rfloor>; d = x - of_int f
      in if d < 1 / 2 then f
         else if 1 / 2 < d then f + 1
         else if even f then f else f + 1)"

fun int_round :: "py_float \<Rightarrow> error + int" where
  "int_round (Finite x) = Inr (py_round x)"
| "int_round NaN = Inl ValueError"
| "int_round PosInf = Inl OverflowError"
| "int_round NegInf = Inl OverflowError"

text \<open>\<open>struct.unpack('b', bytes([x]))[0]\<close>: the byte read as two's complement.\<close>

definition unpack_b :: "byte \<Rightarrow> int" where
  "unpack_b x = sint x"

text \<open>\<open>sum(pkt)\<close> over a bytes object: the sum of the unsigned byte values.\<close>

definition sum_bytes :: "byte list \<Rightarrow> int" where
  "sum_bytes bs = sum_list (map uint bs)"

section \<open>Frame codec\<close>

text \<open>
  \<open>create_packet\<close> of \<open>domoticz_fridge_control.py\<close> (the one of \<open>test_fridge.py\<close>
  computes the same bytes). \<open>data\<close> is the command byte followed by the payload.
\<close>

definition create_packet :: "byte list \<Rightarrow> error + byte list" where
  "create_packet data =
     (let pkt_payload_len = int (length data);
          length_byte_value = pkt_payload_len + 2
      in case pack_B length_byte_value of
           Inl e \<Rightarrow> Inl e
         | Inr lb \<Rightarrow>
             (let pkt = [0xFE, 0xFE] @ lb @ data;
                  csum = sum_bytes pkt AND 0xFFFF
              in case pack_H_be csum of
                   Inl e \<Rightarrow> Inl e
                 | Inr cs \<Rightarrow> Inr (pkt @ cs)))"

text \<open>\<open>parse_frame\<close> of \<open>domoticz_fridge_control.py\<close>.\<close>

definition parse_frame :: "byte list \<Rightarrow> error + (byte \<times> byte list)" where
  "parse_frame data =
     (case getitem data 2 of
        Inl e \<Rightarrow> Inl e
      | Inr b2 \<Rightarrow>
          (let cmd_plus_payload_len = uint b2 - 2
           in case getitem data 3 of
                Inl e \<Rightarrow> Inl e
              | Inr cmd \<Rightarrow>
                  (let payload_len = cmd_plus_payload_len - 1;
                       payload = (if payload_len > 0
                                  then slice data 4 (4 + payload_len)
                                  else [])
                   in Inr (cmd, payload))))"

text \<open>\<open>parse_frame\<close> of \<open>test_fridge.py\<close>, which slices without the length test.\<close>

definition test_parse_frame :: "byte list \<Rightarrow> error + (byte \<times> byte list)" where
  "test_parse_frame data =
     (case getitem data 2 of
        Inl e \<Rightarrow> Inl e
      | Inr b2 \<Rightarrow>
          (let len = uint b2
           in case getitem data 3 of
                Inl e \<Rightarrow> Inl e
              | Inr cmd \<Rightarrow> Inr (cmd, slice data 4 (4 + len - 3))))"

section \<open>Configuration and synchronisation state\<close>

definition DOMOTICZ_FRIDGE_TEMP_IDX :: string where
  "DOMOTICZ_FRIDGE_TEMP_IDX = ''62''"

definition DOMOTICZ_FRIDGE_SETPOINT_IDX :: string where
  "DOMOTICZ_FRIDGE_SETPOINT_IDX = ''61''"

text \<open>The three module-level variables; \<open>None\<close> is Python's \<open>None\<close>.\<close>

record sync_state =
  current_known_setpoint :: "int option"
  last_reported_fridge_temp :: "int option"
  last_reported_fridge_target :: "int option"

text \<open>
  \<open>asyncio.create_task(update_domoticz_device(idx, svalue))\<close> schedules a push and
  returns at once; the scheduled coroutine is recorded as a \<open>task\<close> and runs later.
\<close>

datatype task = Update_domoticz_device string string

section \<open>Upstream push\<close>

text \<open>
  What the HTTP request of \<open>update_domoticz_device\<close> meets: \<open>aiohttp.ClientError\<close>
  raised by the request, or a response with a status code and a body. For the body,
  \<open>response.json()\<close> raises \<open>ContentTypeError\<close> (a \<open>ClientError\<close>) when the
  content type is not JSON, raises \<open>JSONDecodeError\<close> when the text does not parse,
  and otherwise returns a value that is an object, with a string under the key
  \<open>status\<close> or none, or is not an object.
\<close>

datatype json_reply = NotJsonContent | BadJson | JsonNonObject | JsonObject "string option"

datatype http_reply = ClientError | Response nat json_reply

datatype push_outcome =
  InvalidIdx | NoSession | Updated | ErrorStatus | HttpError | Unreachable | BadReply

text \<open>
  \<open>update_domoticz_device\<close>: the failures it catches are printed and swallowed; the
  coroutine returns nothing and assigns none of the three state variables. The outcome
  names the branch taken. \<open>response_json.get\<close> on a value that is not an object
  raises \<open>AttributeError\<close>, which no handler catches.
\<close>

definition update_domoticz_device ::
  "bool \<Rightarrow> http_reply \<Rightarrow> string \<Rightarrow> string \<Rightarrow> error + push_outcome" where
  "update_domoticz_device aiohttp_session reply idx svalue =
     (if idx = [] \<or> idx \<in> set [''IDX_TEMP'', ''IDX_SETPOINT''] then Inr InvalidIdx
      else if \<not> aiohttp_session then Inr NoSession
      else case reply of
             ClientError \<Rightarrow> Inr Unreachable
           | Response status body \<Rightarrow>
               if status = 200
               then (case body of
                       NotJsonContent \<Rightarrow> Inr Unreachable
                     | BadJson \<Rightarrow> Inr BadReply
                     | JsonNonObject \<Rightarrow> Inl AttributeError
                     | JsonObject st \<Rightarrow>
                         if st = Some ''OK'' then Inr Updated else Inr ErrorStatus)
               else Inr HttpError)"

section \<open>Notification handling\<close>

record reading =
  actual_temp :: int
  target_temp :: int
  bat_percent :: int
  bat_vol :: string

text \<open>
  The four reads at the head of the \<open>try\<close> block of \<open>notification_handler\<close>, in the
  order of the source; each index out of range raises \<open>IndexError\<close>.
\<close>

definition decode_query :: "byte list \<Rightarrow> error + reading" where
  "decode_query payload =
     (case getitem payload 14 of
        Inl e \<Rightarrow> Inl e
      | Inr b14 \<Rightarrow>
     (case getitem payload 4 of
        Inl e \<Rightarrow> Inl e
      | Inr b4 \<Rightarrow>
     (case getitem payload 15 of
        Inl e \<Rightarrow> Inl e
      | Inr b15 \<Rightarrow>
     (case getitem payload 16 of
        Inl e \<Rightarrow> Inl e
      | Inr b16 \<Rightarrow>
     (case getitem payload 17 of
        Inl e \<Rightarrow> Inl e
      | Inr b17 \<Rightarrow>
          Inr \<lparr>actual_temp = unpack_b b14, target_temp = unpack_b b4,
               bat_percent = uint b15,
               bat_vol = str_int (uint b16) @ ''.'' @ str_int (uint b17)\<rparr>)))))"

text \<open>
  \<open>notification_handler\<close>. An \<open>IndexError\<close> of \<open>parse_frame\<close> is outside the
  \<open>try\<close> block and leaves the handler before any assignment (\<open>Inl\<close>); one raised by
  the payload reads is caught, and the handler returns with the state as it was. The
  result is the new state and the pushes scheduled, in order.
\<close>

definition notification_handler :: "sync_state \<Rightarrow> byte list \<Rightarrow> error + (sync_state \<times> task list)" where
  "notification_handler s data =
     (case parse_frame data of
        Inl e \<Rightarrow> Inl e
      | Inr (cmd, payload) \<Rightarrow>
          if cmd = 0x01 then
            (case decode_query payload of
               Inl e \<Rightarrow> Inr (s, [])
             | Inr r \<Rightarrow>
                 (let (s1, t1) =
                        (if DOMOTICZ_FRIDGE_TEMP_IDX \<noteq> ''IDX_TEMP'' \<and>
                            last_reported_fridge_temp s \<noteq> Some (actual_temp r)
                         then (s\<lparr>last_reported_fridge_temp := Some (actual_temp r)\<rparr>,
                               [Update_domoticz_device DOMOTICZ_FRIDGE_TEMP_IDX
                                  (str_int (actual_temp r))])
                         else (s, []));
                      (s2, t2) =
                        (if DOMOTICZ_FRIDGE_SETPOINT_IDX \<noteq> ''IDX_SETPOINT'' \<and>
                            last_reported_fridge_target s1 \<noteq> Some (target_temp r)
                         then (s1\<lparr>last_reported_fridge_target := Some (target_temp r)\<rparr>,
                               [Update_domoticz_device DOMOTICZ_FRIDGE_SETPOINT_IDX
                                  (str_int (target_temp r))])
                         else (s1, []))
                  in Inr (s2\<lparr>current_known_setpoint := Some (target_temp r)\<rparr>, t1 @ t2)))
          else if cmd = 0x05 then Inr (s, [])
          else Inr (s, []))"

text \<open>
  The notifications the transport delivers while a coroutine is suspended at an
  \<open>await\<close>, handled one at a time in order. An exception leaving the handler goes to
  the transport's dispatcher, not to the suspended coroutine.
\<close>

fun deliver :: "sync_state \<Rightarrow> byte list list \<Rightarrow> sync_state \<times> task list" where
  "deliver s [] = (s, [])"
| "deliver s (d # ds) =
     (case notification_handler s d of
        Inl e \<Rightarrow> deliver s ds
      | Inr (s', t) \<Rightarrow> (let (s'', t') = deliver s' ds in (s'', t @ t')))"

section \<open>Device session\<close>

text \<open>
  The client object as the code sees it: its \<open>is_connected\<close> property, read when
  a coroutine starts. \<open>None\<close> is a missing client.
\<close>

record client =
  is_connected :: bool

text \<open>\<open>await client.write_gatt_char(...)\<close> returns or raises \<open>BleakError\<close>.\<close>

datatype write_result = WriteOk | WriteBleakError

text \<open>
  What the surroundings do during one run of \<open>set_temperature\<close>: the outcome of
  each of the two writes and the notifications delivered at each of its four
  suspension points (the two writes and the two sleeps).
\<close>

record seq_env =
  write1 :: write_result
  inbound_write1 :: "byte list list"
  inbound_sleep1 :: "byte list list"
  write2 :: write_result
  inbound_write2 :: "byte list list"
  inbound_sleep2 :: "byte list list"

text \<open>
  \<open>set_temperature\<close>. The result is the state at the end, the frames handed to
  \<open>write_gatt_char\<close> (also a write that raised) and the pushes scheduled meanwhile.
  \<open>struct.pack('b', temp)\<close> stands before the \<open>try\<close> block: its error leaves the
  coroutine.
\<close>

definition set_temperature ::
  "client option \<Rightarrow> int \<Rightarrow> seq_env \<Rightarrow> sync_state \<Rightarrow>
     error + (sync_state \<times> byte list list \<times> task list)" where
  "set_temperature cl temp env s =
     (case cl of
        None \<Rightarrow> Inr (s, [], [])
      | Some c \<Rightarrow>
     if \<not> is_connected c then Inr (s, [], [])
     else
     (case pack_b temp of
        Inl e \<Rightarrow> Inl e
      | Inr packed \<Rightarrow>
     (case getitem packed 0 of
        Inl e \<Rightarrow> Inl e
      | Inr temp_byte \<Rightarrow>
     (case create_packet [0x05, temp_byte] of
        Inl e \<Rightarrow> Inl e
      | Inr command_to_send \<Rightarrow>
     (let (s1, t1) = deliver s (inbound_write1 env)
      in case write1 env of
           WriteBleakError \<Rightarrow> Inr (s1, [command_to_send], t1)
         | WriteOk \<Rightarrow>
     (let s2 = s1\<lparr>current_known_setpoint := Some temp\<rparr>;
          (s3, t3) =
            (if DOMOTICZ_FRIDGE_SETPOINT_IDX \<noteq> ''IDX_SETPOINT'' \<and>
                last_reported_fridge_target s2 \<noteq> Some temp
             then (s2\<lparr>last_reported_fridge_target := Some temp\<rparr>,
                   [Update_domoticz_device DOMOTICZ_FRIDGE_SETPOINT_IDX (str_int temp)])
             else (s2, []));
          (s4, t4) = deliver s3 (inbound_sleep1 env)
      in case create_packet [0x01] of
           Inl e \<Rightarrow> Inl e
         | Inr query_to_send \<Rightarrow>
     (let (s5, t5) = deliver s4 (inbound_write2 env)
      in case write2 env of
           WriteBleakError \<Rightarrow>
             Inr (s5, [command_to_send, query_to_send], t1 @ t3 @ t4 @ t5)
         | WriteOk \<Rightarrow>
             (let (s6, t6) = deliver s5 (inbound_sleep2 env)
              in Inr (s6, [command_to_send, query_to_send],
                      t1 @ t3 @ t4 @ t5 @ t6)))))))))"

section \<open>Polling the remote setpoint\<close>

text \<open>
  What the surroundings do during one pass of the loop body of
  \<open>poll_domoticz_for_setpoint_changes\<close>: the notifications delivered during the
  interval sleep and during the pull, what \<open>get_domoticz_setpoint\<close> returns (a float
  or \<open>None\<close>), and the surroundings of the set-temperature sequence, if one is run.
\<close>

record poll_env =
  inbound_interval :: "byte list list"
  inbound_pull :: "byte list list"
  pulled :: "py_float option"
  seq :: seq_env

text \<open>
  One pass of the \<open>while True\<close> body; \<open>continue\<close> ends the pass. The pass and
  the sequence it starts see the same client: \<open>is_connected\<close> is taken not to change
  between the test of the loop and the test at the head of \<open>set_temperature\<close>.
\<close>

definition poll_iteration ::
  "client option \<Rightarrow> poll_env \<Rightarrow> sync_state \<Rightarrow>
     error + (sync_state \<times> byte list list \<times> task list)" where
  "poll_iteration cl env s =
     (let (s0, t0) = deliver s (inbound_interval env)
      in case cl of
           None \<Rightarrow> Inr (s0, [], t0)
         | Some c \<Rightarrow>
     if \<not> is_connected c then Inr (s0, [], t0)
     else if DOMOTICZ_FRIDGE_SETPOINT_IDX = ''IDX_SETPOINT'' then Inr (s0, [], t0)
     else
     (let (s1, t1) = deliver s0 (inbound_pull env)
      in case pulled env of
           None \<Rightarrow> Inr (s1, [], t0 @ t1)
         | Some domoticz_sp_float \<Rightarrow>
     (case int_round domoticz_sp_float of
        Inl e \<Rightarrow> Inl e
      | Inr new_target_temp_from_domoticz \<Rightarrow>
         if current_known_setpoint s1 = None \<or>
            Some new_target_temp_from_domoticz \<noteq> current_known_setpoint s1
         then (case set_temperature cl new_target_temp_from_domoticz (seq env) s1 of
                 Inl e \<Rightarrow> Inl e
               | Inr (s2, w, t2) \<Rightarrow> Inr (s2, w, t0 @ t1 @ t2))
         else Inr (s1, [], t0 @ t1))))"

text \<open>
  The loop, run for as many passes as surroundings are given; an exception leaving a
  pass ends the task. The frames and pushes of the passes are concatenated.
\<close>

fun poll_domoticz_for_setpoint_changes ::
  "client option \<Rightarrow> poll_env list \<Rightarrow> sync_state \<Rightarrow>
     error + (sync_state \<times> byte list list \<times> task list)" where
  "poll_domoticz_for_setpoint_changes cl [] s = Inr (s, [], [])"
| "poll_domoticz_for_setpoint_changes cl (env # envs) s =
     (case poll_iteration cl env s of
        Inl e \<Rightarrow> Inl e
      | Inr (s', w, t) \<Rightarrow>
          (case poll_domoticz_for_setpoint_changes cl envs s' of
             Inl e \<Rightarrow> Inl e
           | Inr (s'', w', t') \<Rightarrow> Inr (s'', w @ w', t @ t')))"

section \<open>Connecting\<close>

text \<open>
  \<open>connect_with_retry\<close>. The transport is a function from the number of the attempt
  (from 0) to the outcome of its \<open>connect\<close>. The trace lists the connects made and
  the sleeps taken, with their length in seconds. Running off the end of the loop
  returns \<open>None\<close>, as the last failed attempt does.
\<close>

datatype connect_result = ConnectOk | ConnectBleakError

datatype conn_event = Attempt nat | Sleep nat

fun connect_attempts ::
  "(nat \<Rightarrow> connect_result) \<Rightarrow> int \<Rightarrow> nat list \<Rightarrow> client option \<times> conn_event list" where
  "connect_attempts transport max_attempts [] = (None, [])"
| "connect_attempts transport max_attempts (attempt # rest) =
     (case transport attempt of
        ConnectOk \<Rightarrow> (Some \<lparr>is_connected = True\<rparr>, [Attempt attempt])
      | ConnectBleakError \<Rightarrow>
          if int attempt < max_attempts - 1
          then (let (r, tr) = connect_attempts transport max_attempts rest
                in (r, Attempt attempt # Sleep 5 # tr))
          else (None, [Attempt attempt]))"

definition connect_with_retry ::
  "(nat \<Rightarrow> connect_result) \<Rightarrow> int \<Rightarrow> client option \<times> conn_event list" where
  "connect_with_retry transport max_attempts =
     connect_attempts transport max_attempts [0 ..< nat max_attempts]"

section \<open>Observing a step\<close>

text \<open>
  A step from state \<open>s\<close> to state \<open>s'\<close> that scheduled the pushes \<open>ts\<close> changes a
  \<open>last_reported\<close> variable only to a value whose push to the matching device is
  among \<open>ts\<close>.
\<close>

definition reported_only_with_push :: "sync_state \<Rightarrow> sync_state \<Rightarrow> task list \<Rightarrow> bool" where
  "reported_only_with_push s s' ts \<longleftrightarrow>
     (last_reported_fridge_temp s' \<noteq> last_reported_fridge_temp s \<longrightarrow>
        (case last_reported_fridge_temp s' of
           None \<Rightarrow> False
         | Some v \<Rightarrow> Update_domoticz_device DOMOTICZ_FRIDGE_TEMP_IDX (str_int v) \<in> set ts)) \<and>
     (last_reported_fridge_target s' \<noteq> last_reported_fridge_target s \<longrightarrow>
        (case last_reported_fridge_target s' of
           None \<Rightarrow> False
         | Some v \<Rightarrow> Update_domoticz_device DOMOTICZ_FRIDGE_SETPOINT_IDX (str_int v) \<in> set ts))"

text \<open>
  The reading a notification carries: the decoded payload when the frame parses, its
  command is \<open>0x01\<close> and the payload decodes, and none otherwise.
\<close>

definition reading_of :: "byte list \<Rightarrow> reading option" where
  "reading_of data =
     (case parse_frame data of
        Inl e \<Rightarrow> None
      | Inr (cmd, payload) \<Rightarrow>
          if cmd = 0x01
          then (case decode_query payload of Inl e \<Rightarrow> None | Inr r \<Rightarrow> Some r)
          else None)"

text \<open>
  The target temperature of the last reading among the notifications \<open>ds\<close>, and
  \<open>k\<close> when none of them carries a reading.
\<close>

fun known_after :: "int option \<Rightarrow> byte list list \<Rightarrow> int option" where
  "known_after k [] = k"
| "known_after k (d # ds) =
     known_after (case reading_of d of None \<Rightarrow> k | Some r \<Rightarrow> Some (target_temp r)) ds"

section \<open>Properties of the frame codec\<close>

lemma slice_nonneg:
  "0 \<le> lo \<Longrightarrow> 0 \<le> hi \<Longrightarrow> slice xs lo hi = take (nat (hi - lo)) (drop (nat lo) xs)"
  unfolding slice_def slice_bound_def Let_def
  by (cases "nat lo \<le> length xs"; cases "nat hi \<le> length xs") (auto simp: min_def nat_diff_distrib')

lemma and_ffff: "(x::int) AND 0xFFFF = x mod 65536"
proof -
  have "x AND mask 16 = x mod 2 ^ 16"
    by (simp only: take_bit_eq_mask [symmetric] take_bit_eq_mod)
  then show ?thesis by (simp add: mask_eq_exp_minus_1)
qed

lemma pack_B_ok: "0 \<le> v \<Longrightarrow> v \<le> 255 \<Longrightarrow> pack_B v = Inr [word_of_int v]"
  by (simp add: pack_B_def)

lemma pack_H_be_mod: "pack_H_be (x mod 65536) = Inr [word_of_int (x mod 65536 div 256), word_of_int (x mod 65536 mod 256)]"
  by (simp add: pack_H_be_def) 

lemma create_packet_Inr:
  assumes "length data \<le> 253"
  shows "create_packet data =
           Inr ([0xFE, 0xFE, word_of_int (int (length data) + 2)] @ data @
                [word_of_int ((sum_bytes ([0xFE, 0xFE, word_of_int (int (length data) + 2)] @ data) mod 65536) div 256),
                 word_of_int ((sum_bytes ([0xFE, 0xFE, word_of_int (int (length data) + 2)] @ data) mod 65536) mod 256)])"
  using assms
  by (simp add: create_packet_def Let_def pack_B_ok and_ffff pack_H_be_mod)

lemma uint_len: "0 \<le> v \<Longrightarrow> v \<le> 255 \<Longrightarrow> uint (word_of_int v :: byte) = v"
  by (simp add: uint_word_of_int take_bit_eq_mod)

lemma parse_frame_short: "length data < 4 \<Longrightarrow> parse_frame data = Inl IndexError"
  by (simp add: parse_frame_def getitem_def Let_def)

lemma parse_frame_long:
  "4 \<le> length data \<Longrightarrow>
   parse_frame data = Inr (data ! 3, take (nat (uint (data ! 2) - 3)) (drop 4 data))"
  by (simp add: parse_frame_def getitem_def Let_def slice_nonneg)

lemma test_parse_frame_short: "length data < 4 \<Longrightarrow> test_parse_frame data = Inl IndexError"
  by (simp add: test_parse_frame_def getitem_def Let_def)

lemma test_parse_frame_long:
  "4 \<le> length data \<Longrightarrow>
   test_parse_frame data = Inr (data ! 3, take (nat (uint (data ! 2) - 3)) (drop 4 data))"
  by (simp add: test_parse_frame_def getitem_def Let_def slice_nonneg)

text \<open>
  Claim C1. For every command byte and every payload of at most 252 bytes,
  \<open>create_packet\<close> applied to the command followed by the payload returns a frame,
  and \<open>parse_frame\<close> of that frame returns exactly the command and the payload.
\<close>

theorem frame_roundtrip:
  assumes "length payload \<le> 252"
  shows "\<exists>pkt. create_packet (command # payload) = Inr pkt \<and>
               parse_frame pkt = Inr (command, payload)"
proof -
  have len: "length (command # payload) \<le> 253" using assms by simp
  have "uint (word_of_int (int (length payload) + 3) :: byte) = (int (length payload) + 3) mod 256"
    by (simp only: uint_word_of_int take_bit_eq_mod) simp
  also have "\<dots> = int (length payload) + 3"
    using assms by simp
  finally have u: "uint (word_of_nat (length payload) + 3 :: byte) = int (length payload) + 3"
    by simp
  show ?thesis
    by (simp add: create_packet_Inr [OF len] parse_frame_long u add.commute)
qed

theorem frame_roundtrip_witness:
  "length [6 :: byte] \<le> 252 \<and>
   (\<exists>pkt. create_packet (5 # [6]) = Inr pkt \<and> parse_frame pkt = Inr (5, [6]))"
  using frame_roundtrip [of "[6]" 5] by simp

lemma hi_lo_recombine:
  assumes "0 \<le> c" "c < 65536"
  shows "uint (word_of_int (c div 256) :: byte) * 256 + uint (word_of_int (c mod 256) :: byte) = c"
proof -
  have "c div 256 < 256" using assms by simp
  moreover have "0 \<le> c div 256" using assms by simp
  ultimately have hi: "uint (word_of_int (c div 256) :: byte) = c div 256"
    by (rule_tac uint_len) simp_all
  have lo: "uint (word_of_int (c mod 256) :: byte) = c mod 256"
    by (rule uint_len) simp_all
  show ?thesis unfolding hi lo by simp
qed

text \<open>
  Claim C2. For every command byte and every payload of at most 252 bytes the frame
  built has \<open>length payload + 6\<close> bytes: the two bytes \<open>0xFE 0xFE\<close>, a third
  byte equal to \<open>1 + length payload + 2\<close>, the command, the payload, and two final
  bytes that are, high byte first, the sum of all preceding bytes modulo 65536.
\<close>

theorem frame_layout:
  assumes "length payload \<le> 252"
  shows "\<exists>pkt. create_packet (command # payload) = Inr pkt \<and>
           length pkt = length payload + 6 \<and>
           pkt ! 0 = 0xFE \<and> pkt ! 1 = 0xFE \<and>
           uint (pkt ! 2) = 1 + int (length payload) + 2 \<and>
           pkt ! 3 = command \<and>
           take (length payload) (drop 4 pkt) = payload \<and>
           uint (pkt ! (length payload + 4)) * 256 + uint (pkt ! (length payload + 5)) =
             sum_bytes (take (length payload + 4) pkt) mod 65536"
proof -
  have len: "length (command # payload) \<le> 253" using assms by simp
  have "uint (word_of_int (int (length payload) + 3) :: byte) = (int (length payload) + 3) mod 256"
    by (simp only: uint_word_of_int take_bit_eq_mod) simp
  also have "\<dots> = int (length payload) + 3"
    using assms by simp
  finally have u: "uint (word_of_nat (length payload) + 3 :: byte) = int (length payload) + 3"
    by simp
  define body where "body = [0xFE, 0xFE, word_of_nat (length payload) + 3, command] @ payload"
  define c where "c = sum_bytes body mod 65536"
  have c: "0 \<le> c" "c < 65536" by (simp_all add: c_def)
  have pkt: "create_packet (command # payload) =
               Inr (body @ [word_of_int (c div 256), word_of_int (c mod 256)])"
    by (simp add: create_packet_Inr [OF len] body_def c_def add.commute)
  have lb: "length body = length payload + 4" by (simp add: body_def)
  have n4: "(body @ [x, y]) ! (length payload + 4) = x" for x y :: byte
    by (simp add: nth_append lb)
  have n5: "(body @ [x, y]) ! (length payload + 5) = y" for x y :: byte
    by (simp add: nth_append lb)
  have tk: "take (length payload + 4) (body @ [x, y]) = body" for x y :: byte
    by (simp add: lb)
  have front: "(body @ r) ! 0 = 0xFE" "(body @ r) ! 1 = 0xFE"
    "(body @ r) ! 2 = word_of_nat (length payload) + 3" "(body @ r) ! 3 = command"
    "take (length payload) (drop 4 (body @ r)) = payload" for r
    by (simp_all add: body_def)
  show ?thesis
    unfolding pkt
    by (simp only: sum.inject ex_simps simp_thms n4 n5 tk front u hi_lo_recombine [OF c] c_def [symmetric])
       (simp add: lb)
qed

theorem frame_layout_witness:
  "length [6 :: byte] \<le> 252 \<and>
   (\<exists>pkt. create_packet (5 # [6]) = Inr pkt \<and> length pkt = 7 \<and>
          pkt ! 0 = 0xFE \<and> pkt ! 1 = 0xFE \<and> uint (pkt ! 2) = 4 \<and> pkt ! 3 = 5 \<and>
          take 1 (drop 4 pkt) = [6] \<and>
          uint (pkt ! 5) * 256 + uint (pkt ! 6) = sum_bytes (take 5 pkt) mod 65536)"
  using frame_layout [of "[6]" 5] by simp

text \<open>
  Claim C3, as stated, fails: a declared length that exceeds the bytes present is
  no error. The five bytes \<open>FE FE 10 01 AA\<close> declare a length of 16, so 19 bytes,
  and are decoded to the command 1 with the payload \<open>AA\<close>.
\<close>

theorem parse_frame_failure_counterexample:
  "int (length [0xFE, 0xFE, 0x10, 0x01, 0xAA :: byte]) < 3 + uint ([0xFE, 0xFE, 0x10, 0x01, 0xAA :: byte] ! 2) \<and>
   parse_frame [0xFE, 0xFE, 0x10, 0x01, 0xAA] = Inr (0x01, [0xAA])"
  by (simp add: parse_frame_long)

text \<open>
  Claim C3, amended. \<open>parse_frame\<close> fails, with \<open>IndexError\<close>, exactly when the
  input has fewer than 4 bytes. On any longer input it succeeds and returns byte 3 as
  the command and, as the payload, the bytes from offset 4 on, at most the declared
  length minus 3 of them (all that are present when fewer are). Bytes after the
  declared payload, the checksum among them, have no influence on the result.
\<close>

theorem parse_frame_failure:
  "((\<exists>e. parse_frame data = Inl e) \<longleftrightarrow> length data < 4) \<and>
   (length data < 4 \<longrightarrow> parse_frame data = Inl IndexError) \<and>
   (4 \<le> length data \<longrightarrow>
      parse_frame data = Inr (data ! 3, take (nat (uint (data ! 2) - 3)) (drop 4 data))) \<and>
   (4 \<le> length data \<and> uint (data ! 2) + 1 \<le> int (length data) \<longrightarrow>
      parse_frame (data @ cs) = parse_frame data)"
proof -
  have a: "length data < 4 \<Longrightarrow> parse_frame data = Inl IndexError"
    by (rule parse_frame_short)
  have b: "4 \<le> length data \<Longrightarrow>
      parse_frame data = Inr (data ! 3, take (nat (uint (data ! 2) - 3)) (drop 4 data))"
    by (rule parse_frame_long)
  have c: "parse_frame (data @ cs) = parse_frame data"
    if "4 \<le> length data" "uint (data ! 2) + 1 \<le> int (length data)"
  proof -
    have "nat (uint (data ! 2) - 3) \<le> length data - 4" using that by linarith
    then show ?thesis using that(1)
      by (simp add: parse_frame_long nth_append)
  qed
  have d: "(\<exists>e. parse_frame data = Inl e) \<longleftrightarrow> length data < 4"
    using a b by (cases "length data < 4") auto
  show ?thesis using a b c d by blast
qed

theorem parse_frame_failure_witness:
  "parse_frame [0xFE, 0xFE] = Inl IndexError \<and>
   parse_frame ([0xFE, 0xFE, 0x04, 0x05, 0x06] @ [0x02, 0x0B]) = Inr (0x05, [0x06]) \<and>
   parse_frame ([0xFE, 0xFE, 0x04, 0x05, 0x06] @ [0x00, 0x00]) = Inr (0x05, [0x06])"
  using parse_frame_failure [of "[0xFE, 0xFE]" "[]"]
    parse_frame_failure [of "[0xFE, 0xFE, 0x04, 0x05, 0x06]" "[0x02, 0x0B]"]
    parse_frame_failure [of "[0xFE, 0xFE, 0x04, 0x05, 0x06]" "[0x00, 0x00]"]
  by simp

text \<open>
  Claim C10. Two inputs of at least 4 bytes that agree from the third byte on are
  decoded alike, by the \<open>parse_frame\<close> of both source files, and the decoding
  succeeds: whatever the first two bytes are, the result is the one for \<open>0xFE 0xFE\<close>
  in their place.
\<close>

theorem header_not_validated:
  assumes "4 \<le> length d" "4 \<le> length d'" "drop 2 d = drop 2 d'"
  shows "parse_frame d = parse_frame d' \<and>
         test_parse_frame d = test_parse_frame d' \<and>
         parse_frame d = parse_frame (0xFE # 0xFE # drop 2 d) \<and>
         (\<exists>c p. parse_frame d = Inr (c, p))"
proof -
  obtain a b r where d: "d = a # b # r"
    using assms(1) by (cases d, simp, rename_tac x xs, case_tac xs, auto)
  obtain a' b' r' where d': "d' = a' # b' # r'"
    using assms(2) by (cases d', simp, rename_tac x xs, case_tac xs, auto)
  have r: "r' = r" "2 \<le> length r" using assms d d' by simp_all
  have l: "4 \<le> length (x # y # r)" for x y :: byte using r by simp
  have n: "(x # y # r) ! 3 = r ! 1" "(x # y # r) ! 2 = r ! 0" "drop 4 (x # y # r) = drop 2 r"
    for x y :: byte
    by (simp_all add: numeral_3_eq_3 numeral_2_eq_2)
  have p: "parse_frame (x # y # r) = Inr (r ! 1, take (nat (uint (r ! 0) - 3)) (drop 2 r))"
    for x y :: byte
    by (simp only: parse_frame_long [OF l] n)
  have t: "test_parse_frame (x # y # r) = Inr (r ! 1, take (nat (uint (r ! 0) - 3)) (drop 2 r))"
    for x y :: byte
    by (simp only: test_parse_frame_long [OF l] n)
  show ?thesis
    unfolding d d' r by (simp add: p t)
qed

theorem header_not_validated_witness:
  "parse_frame [0x00, 0x11, 0x04, 0x05, 0x06, 0x02, 0x0B] =
     parse_frame [0xFE, 0xFE, 0x04, 0x05, 0x06, 0x02, 0x0B] \<and>
   parse_frame [0x00, 0x11, 0x04, 0x05, 0x06, 0x02, 0x0B] = Inr (0x05, [0x06])"
  using header_not_validated [of "[0x00, 0x11, 0x04, 0x05, 0x06, 0x02, 0x0B]"
      "[0xFE, 0xFE, 0x04, 0x05, 0x06, 0x02, 0x0B]"]
  by (simp add: parse_frame_long)

section \<open>Properties of the notification handler\<close>

lemma decode_query_long:
  "18 \<le> length payload \<Longrightarrow>
   decode_query payload =
     Inr \<lparr>actual_temp = sint (payload ! 14), target_temp = sint (payload ! 4),
          bat_percent = uint (payload ! 15),
          bat_vol = str_int (uint (payload ! 16)) @ ''.'' @ str_int (uint (payload ! 17))\<rparr>"
  by (simp add: decode_query_def getitem_def unpack_b_def)

lemma decode_query_short:
  "length payload < 18 \<Longrightarrow> decode_query payload = Inl IndexError"
  by (simp add: decode_query_def getitem_def)

lemma str_int_digit: "0 \<le> i \<Longrightarrow> i < 10 \<Longrightarrow> str_int i = [digit_char (nat i)]"
  by (simp add: str_int_def str_nat.simps)

text \<open>
  Claim C4. A query-response payload of at least 18 bytes is decoded with byte 4 as
  the signed 8-bit target temperature, byte 14 as the signed 8-bit actual temperature,
  byte 15 as the unsigned battery percent and the decimal renderings of bytes 16 and
  17 joined by a point as the voltage; with the bytes \<open>FC\<close>, \<open>02\<close>, \<open>55\<close>, \<open>03\<close>,
  \<open>07\<close> at these offsets the reading is \<open>-4\<close>, \<open>2\<close>, \<open>85\<close>, \<open>3.7\<close>. A payload of
  fewer than 18 bytes raises \<open>IndexError\<close>, and the handler then returns with the
  state as it was and no push scheduled.
\<close>

theorem query_decoding:
  "(18 \<le> length payload \<longrightarrow>
      decode_query payload =
        Inr \<lparr>actual_temp = sint (payload ! 14), target_temp = sint (payload ! 4),
             bat_percent = uint (payload ! 15),
             bat_vol = str_int (uint (payload ! 16)) @ ''.'' @ str_int (uint (payload ! 17))\<rparr>) \<and>
   (18 \<le> length payload \<and> payload ! 4 = 0xFC \<and> payload ! 14 = 0x02 \<and>
    payload ! 15 = 0x55 \<and> payload ! 16 = 0x03 \<and> payload ! 17 = 0x07 \<longrightarrow>
      decode_query payload =
        Inr \<lparr>actual_temp = 2, target_temp = - 4, bat_percent = 85, bat_vol = ''3.7''\<rparr>) \<and>
   (length payload < 18 \<longrightarrow>
      decode_query payload = Inl IndexError \<and>
      (parse_frame data = Inr (0x01, payload) \<longrightarrow> notification_handler s data = Inr (s, [])))"
proof -
  have ex: "decode_query payload =
        Inr \<lparr>actual_temp = 2, target_temp = - 4, bat_percent = 85, bat_vol = ''3.7''\<rparr>"
    if "18 \<le> length payload" "payload ! 4 = 0xFC" "payload ! 14 = 0x02"
      "payload ! 15 = 0x55" "payload ! 16 = 0x03" "payload ! 17 = 0x07"
    using that by (simp add: decode_query_long str_int_digit digit_char_def)
  have sh: "notification_handler s data = Inr (s, [])"
    if "length payload < 18" "parse_frame data = Inr (0x01, payload)"
    using that by (simp add: notification_handler_def decode_query_short)
  show ?thesis
    using ex sh decode_query_long decode_query_short by blast
qed

theorem query_decoding_witness:
  "decode_query [0, 0, 0, 0, 0xFC, 0, 0, 0, 0, 0, 0, 0, 0, 0, 0x02, 0x55, 0x03, 0x07] =
     Inr \<lparr>actual_temp = 2, target_temp = - 4, bat_percent = 85, bat_vol = ''3.7''\<rparr> \<and>
   decode_query [0, 0, 0, 0, 0xFC] = Inl IndexError \<and>
   notification_handler \<lparr>current_known_setpoint = Some 4, last_reported_fridge_temp = None,
       last_reported_fridge_target = None\<rparr> [0xFE, 0xFE, 0x08, 0x01, 0, 0, 0, 0, 0xFC, 0x03, 0x03] =
     Inr (\<lparr>current_known_setpoint = Some 4, last_reported_fridge_temp = None,
       last_reported_fridge_target = None\<rparr>, [])"
  using query_decoding [of "[0, 0, 0, 0, 0xFC, 0, 0, 0, 0, 0, 0, 0, 0, 0, 0x02, 0x55, 0x03, 0x07]"]
    query_decoding [of "[0, 0, 0, 0, 0xFC]" "[0xFE, 0xFE, 0x08, 0x01, 0, 0, 0, 0, 0xFC, 0x03, 0x03]"
      "\<lparr>current_known_setpoint = Some 4, last_reported_fridge_temp = None,
       last_reported_fridge_target = None\<rparr>"]
  by (simp add: parse_frame_def getitem_def slice_def slice_bound_def str_int_def str_nat.simps digit_char_def)

lemma notification_handler_reading:
  assumes "parse_frame data = Inr (0x01, payload)" "decode_query payload = Inr r"
  shows "notification_handler s data =
           Inr (s\<lparr>last_reported_fridge_temp := Some (actual_temp r),
                   last_reported_fridge_target := Some (target_temp r),
                   current_known_setpoint := Some (target_temp r)\<rparr>,
                (if last_reported_fridge_temp s \<noteq> Some (actual_temp r)
                 then [Update_domoticz_device DOMOTICZ_FRIDGE_TEMP_IDX (str_int (actual_temp r))]
                 else []) @
                (if last_reported_fridge_target s \<noteq> Some (target_temp r)
                 then [Update_domoticz_device DOMOTICZ_FRIDGE_SETPOINT_IDX (str_int (target_temp r))]
                 else []))"
  using assms
  by (simp add: notification_handler_def DOMOTICZ_FRIDGE_TEMP_IDX_def
      DOMOTICZ_FRIDGE_SETPOINT_IDX_def)

lemma notification_handler_other:
  assumes "parse_frame data = Inr (cmd, payload)"
    "cmd \<noteq> 0x01 \<or> decode_query payload = Inl e"
  shows "notification_handler s data = Inr (s, [])"
  using assms by (auto simp: notification_handler_def)

lemma notification_handler_cases:
  obtains (raised) e where "parse_frame data = Inl e" "notification_handler s data = Inl e"
  | (ignored) cmd payload where "parse_frame data = Inr (cmd, payload)"
      "cmd \<noteq> 0x01 \<or> (\<exists>e. decode_query payload = Inl e)"
  | (reading) payload r where "parse_frame data = Inr (0x01, payload)"
      "decode_query payload = Inr r"
proof (cases "parse_frame data")
  case (Inl e)
  then have "notification_handler s data = Inl e" by (simp add: notification_handler_def)
  with Inl show ?thesis by (rule raised)
next
  case (Inr cp)
  obtain cmd payload where cp: "cp = (cmd, payload)" by (cases cp)
  show ?thesis
  proof (cases "cmd = 0x01")
    case False
    then show ?thesis using Inr cp ignored by simp
  next
    case True
    show ?thesis
    proof (cases "decode_query payload")
      case (Inl e)
      then show ?thesis using Inr cp ignored by simp
    next
      case r: (Inr r)
      show ?thesis using Inr cp True r reading by simp
    qed
  qed
qed

text \<open>
  Claim C6. When the handler has processed a notification, processing the same
  notification again schedules no push and leaves the state as it is. The first
  receipt schedules at most one push per device, and after a decoded reading both
  \<open>last_reported\<close> variables hold the reading's values.
\<close>

theorem repeated_reading_idempotent:
  assumes "notification_handler s data = Inr (s1, t1)"
  shows "notification_handler s1 data = Inr (s1, []) \<and>
         length (filter (\<lambda>t. \<exists>v. t = Update_domoticz_device DOMOTICZ_FRIDGE_TEMP_IDX v) t1) \<le> 1 \<and>
         length (filter (\<lambda>t. \<exists>v. t = Update_domoticz_device DOMOTICZ_FRIDGE_SETPOINT_IDX v) t1) \<le> 1 \<and>
         (\<forall>payload r. parse_frame data = Inr (0x01, payload) \<and> decode_query payload = Inr r \<longrightarrow>
            last_reported_fridge_temp s1 = Some (actual_temp r) \<and>
            last_reported_fridge_target s1 = Some (target_temp r) \<and>
            current_known_setpoint s1 = Some (target_temp r))"
proof (cases s data rule: notification_handler_cases)
  case (raised e)
  then show ?thesis using assms by simp
next
  case (ignored cmd payload)
  have same: "notification_handler s' data = Inr (s', [])" for s'
    using ignored notification_handler_other [of data cmd payload] by auto
  have "s1 = s" "t1 = []" using assms same [of s] by simp_all
  then show ?thesis using same [of s] ignored by auto
next
  case (reading payload r)
  note h = notification_handler_reading [OF reading]
  have s1: "s1 = s\<lparr>last_reported_fridge_temp := Some (actual_temp r),
                   last_reported_fridge_target := Some (target_temp r),
                   current_known_setpoint := Some (target_temp r)\<rparr>"
    and t1: "t1 = (if last_reported_fridge_temp s \<noteq> Some (actual_temp r)
                 then [Update_domoticz_device DOMOTICZ_FRIDGE_TEMP_IDX (str_int (actual_temp r))]
                 else []) @
                (if last_reported_fridge_target s \<noteq> Some (target_temp r)
                 then [Update_domoticz_device DOMOTICZ_FRIDGE_SETPOINT_IDX (str_int (target_temp r))]
                 else [])"
    using assms h [of s] by simp_all
  have again: "notification_handler s1 data = Inr (s1, [])"
    using h [of s1] by (simp add: s1)
  have cnt: "length (filter (\<lambda>t. \<exists>v. t = Update_domoticz_device DOMOTICZ_FRIDGE_TEMP_IDX v) t1) \<le> 1"
    "length (filter (\<lambda>t. \<exists>v. t = Update_domoticz_device DOMOTICZ_FRIDGE_SETPOINT_IDX v) t1) \<le> 1"
    by (simp_all add: t1 DOMOTICZ_FRIDGE_TEMP_IDX_def DOMOTICZ_FRIDGE_SETPOINT_IDX_def)
  show ?thesis using again cnt reading by (simp add: s1)
qed

theorem repeated_reading_idempotent_witness:
  "notification_handler
     \<lparr>current_known_setpoint = None, last_reported_fridge_temp = None,
      last_reported_fridge_target = None\<rparr>
     [0xFE, 0xFE, 0x15, 0x01, 0, 0, 0, 0, 0xFC, 0, 0, 0, 0, 0, 0, 0, 0, 0, 0x02, 0x55, 0x03, 0x07,
      0x03, 0x6F] =
     Inr (\<lparr>current_known_setpoint = Some (- 4), last_reported_fridge_temp = Some 2,
           last_reported_fridge_target = Some (- 4)\<rparr>,
          [Update_domoticz_device ''62'' ''2'', Update_domoticz_device ''61'' ''-4'']) \<and>
   notification_handler
     \<lparr>current_known_setpoint = Some (- 4), last_reported_fridge_temp = Some 2,
      last_reported_fridge_target = Some (- 4)\<rparr>
     [0xFE, 0xFE, 0x15, 0x01, 0, 0, 0, 0, 0xFC, 0, 0, 0, 0, 0, 0, 0, 0, 0, 0x02, 0x55, 0x03, 0x07,
      0x03, 0x6F] =
     Inr (\<lparr>current_known_setpoint = Some (- 4), last_reported_fridge_temp = Some 2,
           last_reported_fridge_target = Some (- 4)\<rparr>, [])"
proof -
  have p: "parse_frame
     [0xFE, 0xFE, 0x15, 0x01, 0, 0, 0, 0, 0xFC, 0, 0, 0, 0, 0, 0, 0, 0, 0, 0x02, 0x55, 0x03, 0x07,
      0x03, 0x6F] =
     Inr (0x01, [0, 0, 0, 0, 0xFC, 0, 0, 0, 0, 0, 0, 0, 0, 0, 0x02, 0x55, 0x03, 0x07])"
    by (simp add: parse_frame_def getitem_def slice_def slice_bound_def)
  have q: "decode_query [0, 0, 0, 0, 0xFC, 0, 0, 0, 0, 0, 0, 0, 0, 0, 0x02, 0x55, 0x03, 0x07] =
     Inr \<lparr>actual_temp = 2, target_temp = - 4, bat_percent = 85, bat_vol = ''3.7''\<rparr>"
    by (simp add: decode_query_def getitem_def unpack_b_def str_int_def str_nat.simps
        digit_char_def)
  have h: "notification_handler
     \<lparr>current_known_setpoint = None, last_reported_fridge_temp = None,
      last_reported_fridge_target = None\<rparr>
     [0xFE, 0xFE, 0x15, 0x01, 0, 0, 0, 0, 0xFC, 0, 0, 0, 0, 0, 0, 0, 0, 0, 0x02, 0x55, 0x03, 0x07,
      0x03, 0x6F] =
     Inr (\<lparr>current_known_setpoint = Some (- 4), last_reported_fridge_temp = Some 2,
           last_reported_fridge_target = Some (- 4)\<rparr>,
          [Update_domoticz_device ''62'' ''2'', Update_domoticz_device ''61'' ''-4''])"
    by (simp add: notification_handler_def p q DOMOTICZ_FRIDGE_TEMP_IDX_def
        DOMOTICZ_FRIDGE_SETPOINT_IDX_def str_int_def str_nat.simps digit_char_def)
  show ?thesis
    using h repeated_reading_idempotent [OF h] by simp
qed

lemma reported_refl: "reported_only_with_push s s ts"
  by (simp add: reported_only_with_push_def)

lemma reported_trans:
  assumes "reported_only_with_push s s1 t1" "reported_only_with_push s1 s2 t2"
  shows "reported_only_with_push s s2 (t1 @ t2)"
  using assms unfolding reported_only_with_push_def
  by (auto split: option.splits)

lemma notification_handler_reported:
  assumes "notification_handler s data = Inr (s', ts)"
  shows "reported_only_with_push s s' ts"
proof (cases s data rule: notification_handler_cases)
  case (raised e)
  then show ?thesis using assms by simp
next
  case (ignored cmd payload)
  then have "notification_handler s data = Inr (s, [])"
    using notification_handler_other [of data cmd payload] by auto
  then show ?thesis using assms by (simp add: reported_refl)
next
  case (reading payload r)
  show ?thesis
    using assms notification_handler_reading [OF reading, of s]
    by (auto simp: reported_only_with_push_def)
qed

lemma deliver_reported:
  "deliver s ds = (s', ts) \<Longrightarrow> reported_only_with_push s s' ts"
proof (induction ds arbitrary: s s' ts)
  case Nil
  then show ?case by (simp add: reported_refl)
next
  case (Cons d ds)
  show ?case
  proof (cases "notification_handler s d")
    case (Inl e)
    then show ?thesis using Cons by simp
  next
    case (Inr st)
    obtain s1 t1 where st: "st = (s1, t1)" by (cases st)
    obtain s2 t2 where d: "deliver s1 ds = (s2, t2)" by (cases "deliver s1 ds")
    have "s' = s2" "ts = t1 @ t2" using Cons.prems Inr st d by simp_all
    moreover have "reported_only_with_push s s1 t1"
      using Inr st by (simp add: notification_handler_reported)
    moreover have "reported_only_with_push s1 s2 t2" using d by (rule Cons.IH)
    ultimately show ?thesis by (simp add: reported_trans)
  qed
qed

section \<open>Properties of the set-temperature sequence\<close>

lemma create_packet_query: "create_packet [0x01] = Inr [0xFE, 0xFE, 0x03, 0x01, 0x02, 0x00]"
  by (simp add: create_packet_def pack_B_def sum_bytes_def and_ffff pack_H_be_def)

lemma create_packet_set_6: "create_packet [0x05, 0x06] = Inr [0xFE, 0xFE, 0x04, 0x05, 0x06, 0x02, 0x0B]"
  by (simp add: create_packet_def pack_B_def sum_bytes_def and_ffff pack_H_be_def)

lemma set_temperature_skipped:
  "cl = None \<or> (\<exists>c. cl = Some c \<and> \<not> is_connected c) \<Longrightarrow> set_temperature cl temp env s = Inr (s, [], [])"
  by (auto simp: set_temperature_def)

lemma set_temperature_range:
  "cl = Some c \<Longrightarrow> is_connected c \<Longrightarrow> \<not> (- 128 \<le> temp \<and> temp \<le> 127) \<Longrightarrow>
   set_temperature cl temp env s = Inl StructError"
  by (auto simp: set_temperature_def pack_b_def)

lemma upd_same:
  "last_reported_fridge_target s1 = Some temp \<Longrightarrow>
   s1\<lparr>current_known_setpoint := Some temp\<rparr> =
   s1\<lparr>current_known_setpoint := Some temp, last_reported_fridge_target := Some temp\<rparr>"
  by (cases s1) simp

lemma setpoint_block:
  "(if DOMOTICZ_FRIDGE_SETPOINT_IDX \<noteq> ''IDX_SETPOINT'' \<and>
       last_reported_fridge_target (s1\<lparr>current_known_setpoint := Some temp\<rparr>) \<noteq> Some temp
    then ((s1\<lparr>current_known_setpoint := Some temp\<rparr>)\<lparr>last_reported_fridge_target := Some temp\<rparr>,
          [Update_domoticz_device DOMOTICZ_FRIDGE_SETPOINT_IDX (str_int temp)])
    else (s1\<lparr>current_known_setpoint := Some temp\<rparr>, [])) =
   (s1\<lparr>current_known_setpoint := Some temp, last_reported_fridge_target := Some temp\<rparr>,
    if last_reported_fridge_target s1 \<noteq> Some temp
    then [Update_domoticz_device DOMOTICZ_FRIDGE_SETPOINT_IDX (str_int temp)] else [])"
proof (cases "last_reported_fridge_target s1 = Some temp")
  case True
  then show ?thesis using upd_same [OF True] by (cases s1) simp
next
  case False
  then show ?thesis by (cases s1) (simp add: DOMOTICZ_FRIDGE_SETPOINT_IDX_def)
qed


lemma set_temperature_abort:
  assumes "is_connected c" "- 128 \<le> temp" "temp \<le> 127"
    "create_packet [0x05, word_of_int temp] = Inr f"
    "deliver s (inbound_write1 env) = (s1, t1)"
    "write1 env = WriteBleakError"
  shows "set_temperature (Some c) temp env s = Inr (s1, [f], t1)"
proof -
  have pk: "pack_b temp = Inr [word_of_int temp]" using assms(2,3) by (simp add: pack_b_def)
  have g: "getitem [word_of_int temp :: byte] 0 = Inr (word_of_int temp)" by (simp add: getitem_def)
  show ?thesis
    unfolding set_temperature_def
    by (simp only: option.case assms(1) not_True_eq_False if_False pk g sum.case assms(4,5,6)
        prod.case Let_def write_result.case)
qed

lemma set_temperature_sent:
  assumes "is_connected c" "- 128 \<le> temp" "temp \<le> 127"
    "create_packet [0x05, word_of_int temp] = Inr f"
    "deliver s (inbound_write1 env) = (s1, t1)"
    "write1 env = WriteOk"
    "deliver (s1\<lparr>current_known_setpoint := Some temp,
                  last_reported_fridge_target := Some temp\<rparr>) (inbound_sleep1 env) = (s4, t4)"
    "deliver s4 (inbound_write2 env) = (s5, t5)"
    "deliver s5 (inbound_sleep2 env) = (s6, t6)"
  shows "set_temperature (Some c) temp env s =
           Inr (if write2 env = WriteOk then s6 else s5,
                [f, [0xFE, 0xFE, 0x03, 0x01, 0x02, 0x00]],
                t1 @ (if last_reported_fridge_target s1 \<noteq> Some temp
                      then [Update_domoticz_device DOMOTICZ_FRIDGE_SETPOINT_IDX (str_int temp)]
                      else []) @ t4 @ t5 @ (if write2 env = WriteOk then t6 else []))"
proof -
  have pk: "pack_b temp = Inr [word_of_int temp]" using assms(2,3) by (simp add: pack_b_def)
  have g: "getitem [word_of_int temp :: byte] 0 = Inr (word_of_int temp)" by (simp add: getitem_def)
  have u: "set_temperature (Some c) temp env s =
      (case write2 env of
         WriteBleakError \<Rightarrow>
           Inr (s5, [f, [0xFE, 0xFE, 0x03, 0x01, 0x02, 0x00]],
                t1 @ (if last_reported_fridge_target s1 \<noteq> Some temp
                      then [Update_domoticz_device DOMOTICZ_FRIDGE_SETPOINT_IDX (str_int temp)]
                      else []) @ t4 @ t5)
       | WriteOk \<Rightarrow>
           Inr (s6, [f, [0xFE, 0xFE, 0x03, 0x01, 0x02, 0x00]],
                t1 @ (if last_reported_fridge_target s1 \<noteq> Some temp
                      then [Update_domoticz_device DOMOTICZ_FRIDGE_SETPOINT_IDX (str_int temp)]
                      else []) @ t4 @ t5 @ t6))"
    unfolding set_temperature_def
    by (simp only: option.case assms(1) not_True_eq_False if_False pk g sum.case assms(4-9)
        prod.case Let_def write_result.case setpoint_block create_packet_query)
  show ?thesis
    unfolding u by (cases "write2 env") simp_all
qed

lemma create_packet_set_frame:
  "\<exists>f. create_packet [0x05, b] = Inr f"
  by (simp add: create_packet_Inr)

lemma setpoint_block_reported:
  "reported_only_with_push s1
     (s1\<lparr>current_known_setpoint := Some temp, last_reported_fridge_target := Some temp\<rparr>)
     (if last_reported_fridge_target s1 \<noteq> Some temp
      then [Update_domoticz_device DOMOTICZ_FRIDGE_SETPOINT_IDX (str_int temp)] else [])"
  by (simp add: reported_only_with_push_def)

lemma set_temperature_reported:
  assumes "set_temperature cl temp env s = Inr (s', w, ts)"
  shows "reported_only_with_push s s' ts"
proof (cases "cl = None \<or> (\<exists>c. cl = Some c \<and> \<not> is_connected c)")
  case True
  then show ?thesis using assms set_temperature_skipped [OF True, of temp env s]
    by (simp add: reported_refl)
next
  case False
  then obtain c where c: "cl = Some c" "is_connected c" by auto
  have rng: "- 128 \<le> temp \<and> temp \<le> 127"
    using assms set_temperature_range [OF c, of temp env s] by auto
  obtain f where f: "create_packet [0x05, word_of_int temp] = Inr f"
    using create_packet_set_frame by blast
  obtain s1 t1 where d1: "deliver s (inbound_write1 env) = (s1, t1)"
    by (cases "deliver s (inbound_write1 env)")
  note r1 = deliver_reported [OF d1]
  show ?thesis
  proof (cases "write1 env")
    case WriteBleakError
    then show ?thesis
      using assms r1 set_temperature_abort [OF c(2) _ _ f d1, of ] rng c(1) by simp
  next
    case WriteOk
    let ?s3 = "s1\<lparr>current_known_setpoint := Some temp, last_reported_fridge_target := Some temp\<rparr>"
    let ?t3 = "if last_reported_fridge_target s1 \<noteq> Some temp
      then [Update_domoticz_device DOMOTICZ_FRIDGE_SETPOINT_IDX (str_int temp)] else []"
    obtain s4 t4 where d4: "deliver ?s3 (inbound_sleep1 env) = (s4, t4)"
      by (cases "deliver ?s3 (inbound_sleep1 env)")
    obtain s5 t5 where d5: "deliver s4 (inbound_write2 env) = (s5, t5)"
      by (cases "deliver s4 (inbound_write2 env)")
    obtain s6 t6 where d6: "deliver s5 (inbound_sleep2 env) = (s6, t6)"
      by (cases "deliver s5 (inbound_sleep2 env)")
    have r3: "reported_only_with_push s1 ?s3 ?t3" by (rule setpoint_block_reported)
    have r5: "reported_only_with_push s s5 (t1 @ ?t3 @ t4 @ t5)"
      by (intro reported_trans [OF r1] reported_trans [OF r3]
          reported_trans [OF deliver_reported [OF d4]] deliver_reported [OF d5])
    have r6: "reported_only_with_push s s6 (t1 @ ?t3 @ t4 @ t5 @ t6)"
      by (intro reported_trans [OF r1] reported_trans [OF r3]
          reported_trans [OF deliver_reported [OF d4]]
          reported_trans [OF deliver_reported [OF d5]] deliver_reported [OF d6])
    have "set_temperature (Some c) temp env s =
           Inr (if write2 env = WriteOk then s6 else s5,
                [f, [0xFE, 0xFE, 0x03, 0x01, 0x02, 0x00]],
                t1 @ ?t3 @ t4 @ t5 @ (if write2 env = WriteOk then t6 else []))"
      using rng by (intro set_temperature_sent [OF c(2) _ _ f d1 WriteOk d4 d5 d6]) simp_all
    then show ?thesis
      using assms c(1) r5 r6 by (cases "write2 env = WriteOk") auto
  qed
qed

lemma notification_handler_pushes:
  assumes "notification_handler s data = Inr (s', ts)"
    "Update_domoticz_device idx v \<in> set ts"
  shows "(idx = DOMOTICZ_FRIDGE_TEMP_IDX \<and> map_option str_int (last_reported_fridge_temp s') = Some v) \<or>
         (idx = DOMOTICZ_FRIDGE_SETPOINT_IDX \<and> map_option str_int (last_reported_fridge_target s') = Some v)"
proof (cases s data rule: notification_handler_cases)
  case (raised e)
  then show ?thesis using assms by simp
next
  case (ignored cmd payload)
  then have "notification_handler s data = Inr (s, [])"
    using notification_handler_other [of data cmd payload] by auto
  then show ?thesis using assms by simp
next
  case (reading payload r)
  show ?thesis
    using assms notification_handler_reading [OF reading, of s]
    by (auto split: if_splits)
qed


lemma notification_handler_example:
  "notification_handler
     \<lparr>current_known_setpoint = None, last_reported_fridge_temp = None,
      last_reported_fridge_target = None\<rparr>
     [0xFE, 0xFE, 0x15, 0x01, 0, 0, 0, 0, 0xFC, 0, 0, 0, 0, 0, 0, 0, 0, 0, 0x02, 0x55, 0x03, 0x07,
      0x03, 0x6F] =
     Inr (\<lparr>current_known_setpoint = Some (- 4), last_reported_fridge_temp = Some 2,
           last_reported_fridge_target = Some (- 4)\<rparr>,
          [Update_domoticz_device ''62'' ''2'', Update_domoticz_device ''61'' ''-4''])"
proof -
  have p: "parse_frame
     [0xFE, 0xFE, 0x15, 0x01, 0, 0, 0, 0, 0xFC, 0, 0, 0, 0, 0, 0, 0, 0, 0, 0x02, 0x55, 0x03, 0x07,
      0x03, 0x6F] =
     Inr (0x01, [0, 0, 0, 0, 0xFC, 0, 0, 0, 0, 0, 0, 0, 0, 0, 0x02, 0x55, 0x03, 0x07])"
    by (simp add: parse_frame_def getitem_def slice_def slice_bound_def)
  have q: "decode_query [0, 0, 0, 0, 0xFC, 0, 0, 0, 0, 0, 0, 0, 0, 0, 0x02, 0x55, 0x03, 0x07] =
     Inr \<lparr>actual_temp = 2, target_temp = - 4, bat_percent = 85, bat_vol = ''3.7''\<rparr>"
    by (simp add: decode_query_def getitem_def unpack_b_def str_int_def str_nat.simps
        digit_char_def)
  show ?thesis
    by (simp add: notification_handler_def p q DOMOTICZ_FRIDGE_TEMP_IDX_def
        DOMOTICZ_FRIDGE_SETPOINT_IDX_def str_int_def str_nat.simps digit_char_def)
qed

lemma set_temperature_example:
  "set_temperature (Some \<lparr>is_connected = True\<rparr>) 6
     \<lparr>write1 = WriteOk, inbound_write1 = [], inbound_sleep1 = [],
      write2 = WriteBleakError, inbound_write2 = [], inbound_sleep2 = []\<rparr>
     \<lparr>current_known_setpoint = Some 4, last_reported_fridge_temp = None,
      last_reported_fridge_target = Some 4\<rparr> =
   Inr (\<lparr>current_known_setpoint = Some 6, last_reported_fridge_temp = None,
         last_reported_fridge_target = Some 6\<rparr>,
        [[0xFE, 0xFE, 0x04, 0x05, 0x06, 0x02, 0x0B], [0xFE, 0xFE, 0x03, 0x01, 0x02, 0x00]],
        [Update_domoticz_device ''61'' ''6''])"
  using set_temperature_sent [of "\<lparr>is_connected = True\<rparr>" 6
      "[0xFE, 0xFE, 0x04, 0x05, 0x06, 0x02, 0x0B]"
      "\<lparr>current_known_setpoint = Some 4, last_reported_fridge_temp = None,
        last_reported_fridge_target = Some 4\<rparr>"
      "\<lparr>write1 = WriteOk, inbound_write1 = [], inbound_sleep1 = [],
        write2 = WriteBleakError, inbound_write2 = [], inbound_sleep2 = []\<rparr>"
      "\<lparr>current_known_setpoint = Some 4, last_reported_fridge_temp = None,
        last_reported_fridge_target = Some 4\<rparr>" "[]"
      "\<lparr>current_known_setpoint = Some 6, last_reported_fridge_temp = None,
        last_reported_fridge_target = Some 6\<rparr>" "[]"
      "\<lparr>current_known_setpoint = Some 6, last_reported_fridge_temp = None,
        last_reported_fridge_target = Some 6\<rparr>" "[]"
      "\<lparr>current_known_setpoint = Some 6, last_reported_fridge_temp = None,
        last_reported_fridge_target = Some 6\<rparr>" "[]"]
  by (simp add: create_packet_set_6 DOMOTICZ_FRIDGE_SETPOINT_IDX_def str_int_def
      str_nat.simps digit_char_def)

text \<open>
  Claim C7, as stated, fails: the \<open>last_reported\<close> variables are assigned when the
  push is scheduled, not when it has succeeded. From the empty state, a query response
  with actual temperature 2 and target \<open>-4\<close> leaves both variables set while the two
  pushes are still only scheduled; run against a server that cannot be reached, each
  of them fails, and nothing reads that outcome.
\<close>

theorem reported_before_push_completes_counterexample:
  "notification_handler
     \<lparr>current_known_setpoint = None, last_reported_fridge_temp = None,
      last_reported_fridge_target = None\<rparr>
     [0xFE, 0xFE, 0x15, 0x01, 0, 0, 0, 0, 0xFC, 0, 0, 0, 0, 0, 0, 0, 0, 0, 0x02, 0x55, 0x03, 0x07,
      0x03, 0x6F] =
     Inr (\<lparr>current_known_setpoint = Some (- 4), last_reported_fridge_temp = Some 2,
           last_reported_fridge_target = Some (- 4)\<rparr>,
          [Update_domoticz_device ''62'' ''2'', Update_domoticz_device ''61'' ''-4'']) \<and>
   update_domoticz_device True ClientError ''62'' ''2'' = Inr Unreachable \<and>
   update_domoticz_device True ClientError ''61'' ''-4'' = Inr Unreachable"
  by (simp add: notification_handler_example update_domoticz_device_def)

text \<open>
  Claim C7, amended. A \<open>last_reported\<close> variable is assigned in the step that
  schedules the corresponding push, before the push has run and whatever becomes of it:
  a notification step or a set-temperature sequence changes such a variable only to a
  value whose push to the matching device it has scheduled, and every push a
  notification step schedules carries the value the matching variable holds at the
  end of that step.
\<close>

theorem reported_when_scheduled:
  "(notification_handler s data = Inr (s', ts) \<longrightarrow>
      reported_only_with_push s s' ts \<and>
      (\<forall>idx v. Update_domoticz_device idx v \<in> set ts \<longrightarrow>
         (idx = DOMOTICZ_FRIDGE_TEMP_IDX \<and>
          map_option str_int (last_reported_fridge_temp s') = Some v) \<or>
         (idx = DOMOTICZ_FRIDGE_SETPOINT_IDX \<and>
          map_option str_int (last_reported_fridge_target s') = Some v))) \<and>
   (set_temperature cl temp env u = Inr (u', w, us) \<longrightarrow> reported_only_with_push u u' us)"
  using notification_handler_reported [of s data s' ts]
    notification_handler_pushes [of s data s' ts]
    set_temperature_reported [of cl temp env u u' w us]
  by blast

theorem reported_when_scheduled_witness:
  "reported_only_with_push
     \<lparr>current_known_setpoint = None, last_reported_fridge_temp = None,
      last_reported_fridge_target = None\<rparr>
     \<lparr>current_known_setpoint = Some (- 4), last_reported_fridge_temp = Some 2,
      last_reported_fridge_target = Some (- 4)\<rparr>
     [Update_domoticz_device ''62'' ''2'', Update_domoticz_device ''61'' ''-4''] \<and>
   reported_only_with_push
     \<lparr>current_known_setpoint = Some 4, last_reported_fridge_temp = None,
      last_reported_fridge_target = Some 4\<rparr>
     \<lparr>current_known_setpoint = Some 6, last_reported_fridge_temp = None,
      last_reported_fridge_target = Some 6\<rparr>
     [Update_domoticz_device ''61'' ''6'']"
  using reported_when_scheduled [of
      "\<lparr>current_known_setpoint = None, last_reported_fridge_temp = None,
        last_reported_fridge_target = None\<rparr>"
      "[0xFE, 0xFE, 0x15, 0x01, 0, 0, 0, 0, 0xFC, 0, 0, 0, 0, 0, 0, 0, 0, 0, 0x02, 0x55, 0x03, 0x07,
        0x03, 0x6F]"
      "\<lparr>current_known_setpoint = Some (- 4), last_reported_fridge_temp = Some 2,
        last_reported_fridge_target = Some (- 4)\<rparr>"
      "[Update_domoticz_device ''62'' ''2'', Update_domoticz_device ''61'' ''-4'']"
      "Some \<lparr>is_connected = True\<rparr>" 6
      "\<lparr>write1 = WriteOk, inbound_write1 = [], inbound_sleep1 = [],
        write2 = WriteBleakError, inbound_write2 = [], inbound_sleep2 = []\<rparr>"
      "\<lparr>current_known_setpoint = Some 4, last_reported_fridge_temp = None,
        last_reported_fridge_target = Some 4\<rparr>"
      "\<lparr>current_known_setpoint = Some 6, last_reported_fridge_temp = None,
        last_reported_fridge_target = Some 6\<rparr>"
      "[[0xFE, 0xFE, 0x04, 0x05, 0x06, 0x02, 0x0B], [0xFE, 0xFE, 0x03, 0x01, 0x02, 0x00]]"
      "[Update_domoticz_device ''61'' ''6'']"]
  by (simp add: notification_handler_example set_temperature_example)

lemma deliver_append:
  "deliver s (as @ bs) =
     (case deliver s as of (s1, t1) \<Rightarrow> case deliver s1 bs of (s2, t2) \<Rightarrow> (s2, t1 @ t2))"
proof (induction as arbitrary: s)
  case Nil
  then show ?case by (simp split: prod.split)
next
  case (Cons d ds)
  show ?case
  proof (cases "notification_handler s d")
    case (Inl e)
    then show ?thesis by (simp add: Cons.IH)
  next
    case (Inr st)
    obtain s1 t1 where st: "st = (s1, t1)" by (cases st)
    show ?thesis by (simp add: Inr st Cons.IH split: prod.split)
  qed
qed

lemma notification_handler_known:
  assumes "notification_handler s d = Inr (s', ts)"
  shows "current_known_setpoint s' =
           (case reading_of d of None \<Rightarrow> current_known_setpoint s | Some r \<Rightarrow> Some (target_temp r))"
proof (cases s d rule: notification_handler_cases)
  case (raised e)
  then show ?thesis using assms by simp
next
  case (ignored cmd payload)
  then have "notification_handler s d = Inr (s, [])"
    using notification_handler_other [of d cmd payload] by auto
  moreover have "reading_of d = None" using ignored by (auto simp: reading_of_def)
  ultimately show ?thesis using assms by simp
next
  case (reading payload r)
  have "reading_of d = Some r" using reading by (simp add: reading_of_def)
  then show ?thesis
    using assms notification_handler_reading [OF reading, of s] by auto
qed

lemma reading_of_raised: "parse_frame d = Inl e \<Longrightarrow> reading_of d = None"
  by (simp add: reading_of_def)

lemma deliver_known:
  "current_known_setpoint (fst (deliver s ds)) = known_after (current_known_setpoint s) ds"
proof (induction ds arbitrary: s)
  case Nil
  then show ?case by simp
next
  case (Cons d ds)
  show ?case
  proof (cases "notification_handler s d")
    case (Inl e)
    then have "parse_frame d = Inl e"
      by (auto simp: notification_handler_def Let_def
          split: sum.splits prod.splits if_splits)
    then show ?thesis using Inl by (simp add: Cons.IH reading_of_raised)
  next
    case (Inr st)
    obtain s1 t1 where st: "st = (s1, t1)" by (cases st)
    have k: "current_known_setpoint s1 =
           (case reading_of d of None \<Rightarrow> current_known_setpoint s | Some r \<Rightarrow> Some (target_temp r))"
      using Inr st by (simp add: notification_handler_known)
    obtain s2 t2 where d2: "deliver s1 ds = (s2, t2)" by (cases "deliver s1 ds")
    have "current_known_setpoint s2 = known_after (current_known_setpoint s1) ds"
      using Cons.IH [of s1] d2 by simp
    then show ?thesis
      by (simp add: Inr st d2 k)
  qed
qed

lemma known_after_append:
  "known_after k (as @ bs) = known_after (known_after k as) bs"
  by (induction as arbitrary: k) simp_all

lemma known_after_last_reading:
  "reading_of d = Some r \<Longrightarrow> known_after k (ds @ [d]) = Some (target_temp r)"
  by (simp add: known_after_append)

lemma known_after_no_reading:
  "(\<And>d. d \<in> set ds \<Longrightarrow> reading_of d = None) \<Longrightarrow> known_after k ds = k"
  by (induction ds arbitrary: k) simp_all

lemma set_temperature_abort_known:
  assumes "is_connected c" "- 128 \<le> temp" "temp \<le> 127"
    "create_packet [0x05, word_of_int temp] = Inr f"
    "write1 env = WriteBleakError"
  shows "set_temperature (Some c) temp env s =
           Inr (fst (deliver s (inbound_write1 env)), [f], snd (deliver s (inbound_write1 env)))"
  by (rule set_temperature_abort [OF assms(1-4) _ assms(5)]) simp

lemma set_temperature_sent_known:
  assumes "is_connected c" "- 128 \<le> temp" "temp \<le> 127"
    "create_packet [0x05, word_of_int temp] = Inr f"
    "write1 env = WriteOk"
  shows "\<exists>ts. set_temperature (Some c) temp env s =
           Inr (fst (deliver
                  ((fst (deliver s (inbound_write1 env)))
                     \<lparr>current_known_setpoint := Some temp,
                      last_reported_fridge_target := Some temp\<rparr>)
                  (inbound_sleep1 env @ inbound_write2 env @
                   (if write2 env = WriteOk then inbound_sleep2 env else []))),
                [f, [0xFE, 0xFE, 0x03, 0x01, 0x02, 0x00]], ts)"
proof -
  obtain s1 t1 where d1: "deliver s (inbound_write1 env) = (s1, t1)"
    by (cases "deliver s (inbound_write1 env)")
  let ?s3 = "s1\<lparr>current_known_setpoint := Some temp, last_reported_fridge_target := Some temp\<rparr>"
  obtain s4 t4 where d4: "deliver ?s3 (inbound_sleep1 env) = (s4, t4)"
    by (cases "deliver ?s3 (inbound_sleep1 env)")
  obtain s5 t5 where d5: "deliver s4 (inbound_write2 env) = (s5, t5)"
    by (cases "deliver s4 (inbound_write2 env)")
  obtain s6 t6 where d6: "deliver s5 (inbound_sleep2 env) = (s6, t6)"
    by (cases "deliver s5 (inbound_sleep2 env)")
  note r = set_temperature_sent [OF assms(1-4) d1 assms(5) d4 d5 d6]
  have e: "fst (deliver ?s3 (inbound_sleep1 env @ inbound_write2 env @
              (if write2 env = WriteOk then inbound_sleep2 env else []))) =
           (if write2 env = WriteOk then s6 else s5)"
    by (simp add: deliver_append d4 d5 d6)
  show ?thesis
    unfolding r using e d1 by simp
qed


lemma reading_of_example:
  "reading_of [0xFE, 0xFE, 0x15, 0x01, 0, 0, 0, 0, 0xFC, 0, 0, 0, 0, 0, 0, 0, 0, 0, 0x02, 0x55, 0x03, 0x07,
      0x03, 0x6F] =
     Some \<lparr>actual_temp = 2, target_temp = - 4, bat_percent = 85, bat_vol = ''3.7''\<rparr>"
proof -
  have p: "parse_frame [0xFE, 0xFE, 0x15, 0x01, 0, 0, 0, 0, 0xFC, 0, 0, 0, 0, 0, 0, 0, 0, 0, 0x02, 0x55, 0x03, 0x07,
      0x03, 0x6F] =
     Inr (0x01, [0, 0, 0, 0, 0xFC, 0, 0, 0, 0, 0, 0, 0, 0, 0, 0x02, 0x55, 0x03, 0x07])"
    by (simp add: parse_frame_def getitem_def slice_def slice_bound_def)
  have q: "decode_query [0, 0, 0, 0, 0xFC, 0, 0, 0, 0, 0, 0, 0, 0, 0, 0x02, 0x55, 0x03, 0x07] =
     Inr \<lparr>actual_temp = 2, target_temp = - 4, bat_percent = 85, bat_vol = ''3.7''\<rparr>"
    by (simp add: decode_query_def getitem_def unpack_b_def str_int_def str_nat.simps
        digit_char_def)
  show ?thesis by (simp add: reading_of_def p q)
qed

text \<open>
  Claim C8, as stated, fails for the second send of the sequence. With the known
  setpoint 4 and the request 6, the set-target write succeeds and the query write
  raises: the sequence ends with the known setpoint 6.
\<close>

theorem failed_query_send_counterexample:
  "write2 \<lparr>write1 = WriteOk, inbound_write1 = [], inbound_sleep1 = [],
      write2 = WriteBleakError, inbound_write2 = [], inbound_sleep2 = []\<rparr> = WriteBleakError \<and>
   set_temperature (Some \<lparr>is_connected = True\<rparr>) 6
     \<lparr>write1 = WriteOk, inbound_write1 = [], inbound_sleep1 = [],
      write2 = WriteBleakError, inbound_write2 = [], inbound_sleep2 = []\<rparr>
     \<lparr>current_known_setpoint = Some 4, last_reported_fridge_temp = None,
      last_reported_fridge_target = Some 4\<rparr> =
   Inr (\<lparr>current_known_setpoint = Some 6, last_reported_fridge_temp = None,
         last_reported_fridge_target = Some 6\<rparr>,
        [[0xFE, 0xFE, 0x04, 0x05, 0x06, 0x02, 0x0B], [0xFE, 0xFE, 0x03, 0x01, 0x02, 0x00]],
        [Update_domoticz_device ''61'' ''6''])"
  by (simp add: set_temperature_example)

text \<open>
  Claim C8, amended. For a connected client and a temperature that fits a signed
  byte. When the set-target write raises, only that frame has been handed to the
  transport, no query follows, and the sequence schedules no push and assigns nothing:
  the state at the end is the one the notifications handled during the write left, so
  the known setpoint is its value before the sequence, or the target of the last
  reading handled during the write if there was one. When the set-target write
  succeeds and the query write raises, the assignments made after the first write are
  not undone: the known setpoint at the end is the requested temperature, or the
  target of the last reading handled after those assignments (during the sleep of one
  second or the query write) if there was one. The last three conjuncts say what
  \<open>known_after\<close> is on no notification, on notifications without a reading and on
  notifications ending with a reading.
\<close>

theorem failed_send_effect:
  assumes "is_connected c" "- 128 \<le> temp" "temp \<le> 127"
  shows "\<exists>f. create_packet [0x05, word_of_int temp] = Inr f \<and>
    (write1 env = WriteBleakError \<longrightarrow>
       set_temperature (Some c) temp env s =
         Inr (fst (deliver s (inbound_write1 env)), [f], snd (deliver s (inbound_write1 env))) \<and>
       current_known_setpoint (fst (deliver s (inbound_write1 env))) =
         known_after (current_known_setpoint s) (inbound_write1 env)) \<and>
    (write1 env = WriteOk \<and> write2 env = WriteBleakError \<longrightarrow>
       (\<exists>ts. set_temperature (Some c) temp env s =
               Inr (fst (deliver
                      ((fst (deliver s (inbound_write1 env)))
                         \<lparr>current_known_setpoint := Some temp,
                          last_reported_fridge_target := Some temp\<rparr>)
                      (inbound_sleep1 env @ inbound_write2 env)),
                    [f, [0xFE, 0xFE, 0x03, 0x01, 0x02, 0x00]], ts)) \<and>
       current_known_setpoint
         (fst (deliver
            ((fst (deliver s (inbound_write1 env)))
               \<lparr>current_known_setpoint := Some temp,
                last_reported_fridge_target := Some temp\<rparr>)
            (inbound_sleep1 env @ inbound_write2 env))) =
         known_after (Some temp) (inbound_sleep1 env @ inbound_write2 env)) \<and>
    (\<forall>k. known_after k [] = k) \<and>
    (\<forall>k ds. (\<forall>d\<in>set ds. reading_of d = None) \<longrightarrow> known_after k ds = k) \<and>
    (\<forall>k ds d r. reading_of d = Some r \<longrightarrow> known_after k (ds @ [d]) = Some (target_temp r))"
proof -
  obtain f where f: "create_packet [0x05, word_of_int temp] = Inr f"
    using create_packet_set_frame by blast
  have a: "set_temperature (Some c) temp env s =
         Inr (fst (deliver s (inbound_write1 env)), [f], snd (deliver s (inbound_write1 env)))"
    if "write1 env = WriteBleakError"
    by (rule set_temperature_abort_known [OF assms f that])
  have a': "current_known_setpoint (fst (deliver s (inbound_write1 env))) =
         known_after (current_known_setpoint s) (inbound_write1 env)"
    by (rule deliver_known)
  have b: "\<exists>ts. set_temperature (Some c) temp env s =
               Inr (fst (deliver
                      ((fst (deliver s (inbound_write1 env)))
                         \<lparr>current_known_setpoint := Some temp,
                          last_reported_fridge_target := Some temp\<rparr>)
                      (inbound_sleep1 env @ inbound_write2 env)),
                    [f, [0xFE, 0xFE, 0x03, 0x01, 0x02, 0x00]], ts)"
    if w: "write1 env = WriteOk" "write2 env = WriteBleakError"
    using set_temperature_sent_known [OF assms f w(1), of s] w(2) by simp
  have b': "current_known_setpoint
         (fst (deliver
            ((fst (deliver s (inbound_write1 env)))
               \<lparr>current_known_setpoint := Some temp,
                last_reported_fridge_target := Some temp\<rparr>)
            (inbound_sleep1 env @ inbound_write2 env))) =
         known_after (Some temp) (inbound_sleep1 env @ inbound_write2 env)"
    by (simp add: deliver_known)
  have k1: "\<forall>k. known_after k [] = k" by simp
  have k2: "\<forall>k ds. (\<forall>d\<in>set ds. reading_of d = None) \<longrightarrow> known_after k ds = k"
    using known_after_no_reading by blast
  have k3: "\<forall>k ds d r. reading_of d = Some r \<longrightarrow> known_after k (ds @ [d]) = Some (target_temp r)"
    using known_after_last_reading by blast
  show ?thesis using f a a' b b' k1 k2 k3 by blast
qed

theorem failed_send_effect_witness:
  "set_temperature (Some \<lparr>is_connected = True\<rparr>) 6
     \<lparr>write1 = WriteBleakError, inbound_write1 = [], inbound_sleep1 = [],
      write2 = WriteOk, inbound_write2 = [], inbound_sleep2 = []\<rparr>
     \<lparr>current_known_setpoint = Some 4, last_reported_fridge_temp = None,
      last_reported_fridge_target = Some 4\<rparr> =
   Inr (\<lparr>current_known_setpoint = Some 4, last_reported_fridge_temp = None,
         last_reported_fridge_target = Some 4\<rparr>,
        [[0xFE, 0xFE, 0x04, 0x05, 0x06, 0x02, 0x0B]], []) \<and>
   (\<exists>s' ts. set_temperature (Some \<lparr>is_connected = True\<rparr>) 6
     \<lparr>write1 = WriteOk, inbound_write1 = [], inbound_sleep1 = [[0xFE, 0xFE, 0x15, 0x01, 0, 0, 0, 0, 0xFC, 0, 0, 0, 0, 0, 0, 0, 0, 0, 0x02, 0x55, 0x03, 0x07,
      0x03, 0x6F]],
      write2 = WriteBleakError, inbound_write2 = [], inbound_sleep2 = []\<rparr>
     \<lparr>current_known_setpoint = Some 4, last_reported_fridge_temp = None,
      last_reported_fridge_target = Some 4\<rparr> =
     Inr (s', [[0xFE, 0xFE, 0x04, 0x05, 0x06, 0x02, 0x0B], [0xFE, 0xFE, 0x03, 0x01, 0x02, 0x00]],
          ts) \<and>
     current_known_setpoint s' = Some (- 4)) \<and>
   known_after (Some 6) [[0xFE, 0xFE]] = Some 6"
proof -
  have r: "reading_of [0xFE, 0xFE] = None"
    by (simp add: reading_of_def parse_frame_def getitem_def)
  show ?thesis
    using failed_send_effect [of "\<lparr>is_connected = True\<rparr>" 6
      "\<lparr>write1 = WriteBleakError, inbound_write1 = [], inbound_sleep1 = [],
        write2 = WriteOk, inbound_write2 = [], inbound_sleep2 = []\<rparr>"
      "\<lparr>current_known_setpoint = Some 4, last_reported_fridge_temp = None,
        last_reported_fridge_target = Some 4\<rparr>"]
    failed_send_effect [of "\<lparr>is_connected = True\<rparr>" 6
      "\<lparr>write1 = WriteOk, inbound_write1 = [], inbound_sleep1 = [[0xFE, 0xFE, 0x15, 0x01, 0, 0, 0, 0, 0xFC, 0, 0, 0, 0, 0, 0, 0, 0, 0, 0x02, 0x55, 0x03, 0x07,
      0x03, 0x6F]],
        write2 = WriteBleakError, inbound_write2 = [], inbound_sleep2 = []\<rparr>"
      "\<lparr>current_known_setpoint = Some 4, last_reported_fridge_temp = None,
        last_reported_fridge_target = Some 4\<rparr>"]
    by (auto simp: create_packet_set_6 reading_of_example r)
qed

section \<open>Properties of the polling loop\<close>

lemma py_round_4_4 [simp]: "py_round (22 / 5) = 4"
proof -
  have "\<lfloor>22 / 5 :: real\<rfloor> = 4" by (simp add: floor_eq_iff)
  then show ?thesis by (simp add: py_round_def Let_def)
qed

lemma py_round_5_6 [simp]: "py_round (28 / 5) = 6"
proof -
  have "\<lfloor>28 / 5 :: real\<rfloor> = 5" by (simp add: floor_eq_iff)
  then show ?thesis by (simp add: py_round_def Let_def)
qed

lemma str_int_6: "str_int 6 = ''6''"
  by (simp add: str_int_def str_nat.simps digit_char_def)

lemma poll_iteration_connected:
  assumes "is_connected c" "deliver s (inbound_interval env) = (s0, t0)"
    "deliver s0 (inbound_pull env) = (s1, t1)" "pulled env = Some (Finite x)"
  shows "poll_iteration (Some c) env s =
     (if current_known_setpoint s1 = None \<or> Some (py_round x) \<noteq> current_known_setpoint s1
      then (case set_temperature (Some c) (py_round x) (seq env) s1 of
              Inl e \<Rightarrow> Inl e
            | Inr (s2, w, t2) \<Rightarrow> Inr (s2, w, t0 @ t1 @ t2))
      else Inr (s1, [], t0 @ t1))"
proof -
  have idx: "(DOMOTICZ_FRIDGE_SETPOINT_IDX = ''IDX_SETPOINT'') = False"
    by (simp add: DOMOTICZ_FRIDGE_SETPOINT_IDX_def)
  show ?thesis
    unfolding poll_iteration_def
    by (simp only: assms prod.case Let_def option.case not_True_eq_False if_False
        idx int_round.simps sum.case)
qed

lemma poll_iteration_same:
  assumes "is_connected c" "pulled env = Some (Finite x)"
    "known_after (current_known_setpoint s) (inbound_interval env @ inbound_pull env) =
       Some (py_round x)"
  shows "poll_iteration (Some c) env s =
           Inr (fst (deliver s (inbound_interval env @ inbound_pull env)), [],
                snd (deliver s (inbound_interval env @ inbound_pull env)))"
proof -
  obtain s0 t0 where d0: "deliver s (inbound_interval env) = (s0, t0)"
    by (cases "deliver s (inbound_interval env)")
  obtain s1 t1 where d1: "deliver s0 (inbound_pull env) = (s1, t1)"
    by (cases "deliver s0 (inbound_pull env)")
  have d: "deliver s (inbound_interval env @ inbound_pull env) = (s1, t0 @ t1)"
    by (simp add: deliver_append d0 d1)
  have k: "current_known_setpoint s1 = Some (py_round x)"
    using deliver_known [of s "inbound_interval env @ inbound_pull env"] d assms(3) by simp
  show ?thesis
    by (simp add: poll_iteration_connected [OF assms(1) d0 d1 assms(2)] k d)
qed

lemma poll_iteration_differs:
  assumes "is_connected c" "pulled env = Some (Finite x)"
    "known_after (current_known_setpoint s) (inbound_interval env @ inbound_pull env) \<noteq>
       Some (py_round x)"
    "- 128 \<le> py_round x" "py_round x \<le> 127"
    "create_packet [0x05, word_of_int (py_round x)] = Inr f"
  shows "\<exists>s' ts. poll_iteration (Some c) env s =
           Inr (s', if write1 (seq env) = WriteOk then [f, [0xFE, 0xFE, 0x03, 0x01, 0x02, 0x00]] else [f], ts) \<and>
         current_known_setpoint s' =
           (if write1 (seq env) = WriteOk
            then known_after (Some (py_round x))
                   (inbound_sleep1 (seq env) @ inbound_write2 (seq env) @
                    (if write2 (seq env) = WriteOk then inbound_sleep2 (seq env) else []))
            else known_after
                   (known_after (current_known_setpoint s)
                      (inbound_interval env @ inbound_pull env))
                   (inbound_write1 (seq env)))"
proof -
  obtain s0 t0 where d0: "deliver s (inbound_interval env) = (s0, t0)"
    by (cases "deliver s (inbound_interval env)")
  obtain s1 t1 where d1: "deliver s0 (inbound_pull env) = (s1, t1)"
    by (cases "deliver s0 (inbound_pull env)")
  have d: "deliver s (inbound_interval env @ inbound_pull env) = (s1, t0 @ t1)"
    by (simp add: deliver_append d0 d1)
  have k: "current_known_setpoint s1 =
      known_after (current_known_setpoint s) (inbound_interval env @ inbound_pull env)"
    using deliver_known [of s "inbound_interval env @ inbound_pull env"] d by simp
  have n: "current_known_setpoint s1 = None \<or> Some (py_round x) \<noteq> current_known_setpoint s1"
    using k assms(3) by auto
  note p = poll_iteration_connected [OF assms(1) d0 d1 assms(2)]
  show ?thesis
  proof (cases "write1 (seq env)")
    case WriteBleakError
    have "set_temperature (Some c) (py_round x) (seq env) s1 =
           Inr (fst (deliver s1 (inbound_write1 (seq env))), [f],
                snd (deliver s1 (inbound_write1 (seq env))))"
      by (rule set_temperature_abort_known [OF assms(1,4,5,6) WriteBleakError])
    then show ?thesis
      using n WriteBleakError by (simp add: p deliver_known k)
  next
    case WriteOk
    obtain ts where "set_temperature (Some c) (py_round x) (seq env) s1 =
           Inr (fst (deliver
                  ((fst (deliver s1 (inbound_write1 (seq env))))
                     \<lparr>current_known_setpoint := Some (py_round x),
                      last_reported_fridge_target := Some (py_round x)\<rparr>)
                  (inbound_sleep1 (seq env) @ inbound_write2 (seq env) @
                   (if write2 (seq env) = WriteOk then inbound_sleep2 (seq env) else []))),
                [f, [0xFE, 0xFE, 0x03, 0x01, 0x02, 0x00]], ts)"
      using set_temperature_sent_known [OF assms(1,4,5,6) WriteOk] by blast
    then show ?thesis
      using n WriteOk by (simp add: p deliver_known)
  qed
qed

lemma poll_iteration_example_first:
  "poll_iteration (Some \<lparr>is_connected = True\<rparr>) \<lparr>inbound_interval = [], inbound_pull = [], pulled = Some (Finite (56 / 10)),
        seq = \<lparr>write1 = WriteOk, inbound_write1 = [], inbound_sleep1 = [],
               write2 = WriteOk, inbound_write2 = [], inbound_sleep2 = []\<rparr>\<rparr> \<lparr>current_known_setpoint = Some 4, last_reported_fridge_temp = Some 2,
        last_reported_fridge_target = Some 4\<rparr> = Inr (\<lparr>current_known_setpoint = Some 6, last_reported_fridge_temp = Some 2,
        last_reported_fridge_target = Some 6\<rparr>, [[0xFE, 0xFE, 0x04, 0x05, 0x06, 0x02, 0x0B], [0xFE, 0xFE, 0x03, 0x01, 0x02, 0x00]], [Update_domoticz_device ''61'' ''6''])"
proof -
  have st: "set_temperature (Some \<lparr>is_connected = True\<rparr>) 6
      \<lparr>write1 = WriteOk, inbound_write1 = [], inbound_sleep1 = [],
        write2 = WriteOk, inbound_write2 = [], inbound_sleep2 = []\<rparr> \<lparr>current_known_setpoint = Some 4, last_reported_fridge_temp = Some 2,
        last_reported_fridge_target = Some 4\<rparr> =
      Inr (\<lparr>current_known_setpoint = Some 6, last_reported_fridge_temp = Some 2,
        last_reported_fridge_target = Some 6\<rparr>, [[0xFE, 0xFE, 0x04, 0x05, 0x06, 0x02, 0x0B], [0xFE, 0xFE, 0x03, 0x01, 0x02, 0x00]], [Update_domoticz_device ''61'' ''6''])"
    using set_temperature_sent [of "\<lparr>is_connected = True\<rparr>" 6 "[0xFE, 0xFE, 0x04, 0x05, 0x06, 0x02, 0x0B]" "\<lparr>current_known_setpoint = Some 4, last_reported_fridge_temp = Some 2,
        last_reported_fridge_target = Some 4\<rparr>"
        "\<lparr>write1 = WriteOk, inbound_write1 = [], inbound_sleep1 = [],
          write2 = WriteOk, inbound_write2 = [], inbound_sleep2 = []\<rparr>"
        "\<lparr>current_known_setpoint = Some 4, last_reported_fridge_temp = Some 2,
        last_reported_fridge_target = Some 4\<rparr>" "[]" "\<lparr>current_known_setpoint = Some 6, last_reported_fridge_temp = Some 2,
        last_reported_fridge_target = Some 6\<rparr>" "[]" "\<lparr>current_known_setpoint = Some 6, last_reported_fridge_temp = Some 2,
        last_reported_fridge_target = Some 6\<rparr>" "[]" "\<lparr>current_known_setpoint = Some 6, last_reported_fridge_temp = Some 2,
        last_reported_fridge_target = Some 6\<rparr>" "[]"]
    by (simp add: create_packet_set_6 DOMOTICZ_FRIDGE_SETPOINT_IDX_def str_int_6)
  have "poll_iteration (Some \<lparr>is_connected = True\<rparr>) \<lparr>inbound_interval = [], inbound_pull = [], pulled = Some (Finite (56 / 10)),
        seq = \<lparr>write1 = WriteOk, inbound_write1 = [], inbound_sleep1 = [],
               write2 = WriteOk, inbound_write2 = [], inbound_sleep2 = []\<rparr>\<rparr> \<lparr>current_known_setpoint = Some 4, last_reported_fridge_temp = Some 2,
        last_reported_fridge_target = Some 4\<rparr> =
     (if current_known_setpoint \<lparr>current_known_setpoint = Some 4, last_reported_fridge_temp = Some 2,
        last_reported_fridge_target = Some 4\<rparr> = None \<or> Some (py_round (56 / 10)) \<noteq> current_known_setpoint \<lparr>current_known_setpoint = Some 4, last_reported_fridge_temp = Some 2,
        last_reported_fridge_target = Some 4\<rparr>
      then (case set_temperature (Some \<lparr>is_connected = True\<rparr>) (py_round (56 / 10)) (seq \<lparr>inbound_interval = [], inbound_pull = [], pulled = Some (Finite (56 / 10)),
        seq = \<lparr>write1 = WriteOk, inbound_write1 = [], inbound_sleep1 = [],
               write2 = WriteOk, inbound_write2 = [], inbound_sleep2 = []\<rparr>\<rparr>) \<lparr>current_known_setpoint = Some 4, last_reported_fridge_temp = Some 2,
        last_reported_fridge_target = Some 4\<rparr> of
              Inl e \<Rightarrow> Inl e
            | Inr (s2, w, t2) \<Rightarrow> Inr (s2, w, [] @ [] @ t2))
      else Inr (\<lparr>current_known_setpoint = Some 4, last_reported_fridge_temp = Some 2,
        last_reported_fridge_target = Some 4\<rparr>, [], [] @ []))"
    by (rule poll_iteration_connected) simp_all
  then show ?thesis using st by simp
qed

lemma poll_iteration_example_second:
  "poll_iteration (Some \<lparr>is_connected = True\<rparr>) \<lparr>inbound_interval = [], inbound_pull = [], pulled = Some (Finite (56 / 10)),
        seq = \<lparr>write1 = WriteOk, inbound_write1 = [], inbound_sleep1 = [],
               write2 = WriteOk, inbound_write2 = [], inbound_sleep2 = []\<rparr>\<rparr> \<lparr>current_known_setpoint = Some 6, last_reported_fridge_temp = Some 2,
        last_reported_fridge_target = Some 6\<rparr> = Inr (\<lparr>current_known_setpoint = Some 6, last_reported_fridge_temp = Some 2,
        last_reported_fridge_target = Some 6\<rparr>, [], [])"
  using poll_iteration_same [of "\<lparr>is_connected = True\<rparr>" "\<lparr>inbound_interval = [], inbound_pull = [], pulled = Some (Finite (56 / 10)),
        seq = \<lparr>write1 = WriteOk, inbound_write1 = [], inbound_sleep1 = [],
               write2 = WriteOk, inbound_write2 = [], inbound_sleep2 = []\<rparr>\<rparr>" "56 / 10" "\<lparr>current_known_setpoint = Some 6, last_reported_fridge_temp = Some 2,
        last_reported_fridge_target = Some 6\<rparr>"] by simp

text \<open>
  Claim C5, as stated, fails in its second half. From the known setpoint 4, a pass that
  pulls 5.6 writes the set-target frame for 6 and sets the known setpoint to 6 at
  once; the next pass pulls 5.6 again and writes nothing, although no notification
  has been handled in between. Over the two passes the frame is written once.
\<close>

theorem reconciliation_counterexample:
  "poll_iteration (Some \<lparr>is_connected = True\<rparr>) \<lparr>inbound_interval = [], inbound_pull = [], pulled = Some (Finite (56 / 10)),
        seq = \<lparr>write1 = WriteOk, inbound_write1 = [], inbound_sleep1 = [],
               write2 = WriteOk, inbound_write2 = [], inbound_sleep2 = []\<rparr>\<rparr> \<lparr>current_known_setpoint = Some 4, last_reported_fridge_temp = Some 2,
        last_reported_fridge_target = Some 4\<rparr> = Inr (\<lparr>current_known_setpoint = Some 6, last_reported_fridge_temp = Some 2,
        last_reported_fridge_target = Some 6\<rparr>, [[0xFE, 0xFE, 0x04, 0x05, 0x06, 0x02, 0x0B], [0xFE, 0xFE, 0x03, 0x01, 0x02, 0x00]], [Update_domoticz_device ''61'' ''6'']) \<and>
   poll_iteration (Some \<lparr>is_connected = True\<rparr>) \<lparr>inbound_interval = [], inbound_pull = [], pulled = Some (Finite (56 / 10)),
        seq = \<lparr>write1 = WriteOk, inbound_write1 = [], inbound_sleep1 = [],
               write2 = WriteOk, inbound_write2 = [], inbound_sleep2 = []\<rparr>\<rparr> \<lparr>current_known_setpoint = Some 6, last_reported_fridge_temp = Some 2,
        last_reported_fridge_target = Some 6\<rparr> = Inr (\<lparr>current_known_setpoint = Some 6, last_reported_fridge_temp = Some 2,
        last_reported_fridge_target = Some 6\<rparr>, [], []) \<and>
   poll_domoticz_for_setpoint_changes (Some \<lparr>is_connected = True\<rparr>) [\<lparr>inbound_interval = [], inbound_pull = [], pulled = Some (Finite (56 / 10)),
        seq = \<lparr>write1 = WriteOk, inbound_write1 = [], inbound_sleep1 = [],
               write2 = WriteOk, inbound_write2 = [], inbound_sleep2 = []\<rparr>\<rparr>, \<lparr>inbound_interval = [], inbound_pull = [], pulled = Some (Finite (56 / 10)),
        seq = \<lparr>write1 = WriteOk, inbound_write1 = [], inbound_sleep1 = [],
               write2 = WriteOk, inbound_write2 = [], inbound_sleep2 = []\<rparr>\<rparr>] \<lparr>current_known_setpoint = Some 4, last_reported_fridge_temp = Some 2,
        last_reported_fridge_target = Some 4\<rparr> =
     Inr (\<lparr>current_known_setpoint = Some 6, last_reported_fridge_temp = Some 2,
        last_reported_fridge_target = Some 6\<rparr>, [[0xFE, 0xFE, 0x04, 0x05, 0x06, 0x02, 0x0B], [0xFE, 0xFE, 0x03, 0x01, 0x02, 0x00]], [Update_domoticz_device ''61'' ''6''])"
  using poll_iteration_example_first poll_iteration_example_second by simp

text \<open>
  Claim C5, amended. For a connected client, let the known setpoint of a pass be the
  one at its comparison: that of the state at the start, or the target of the last
  reading handled during the interval sleep and the pull if there was one. If it is 4
  and the pull returns 4.4, no frame is written and the pass assigns nothing: the state
  at the end is the one those notifications left. If the pull returns 5.6, the
  set-target frame for 6 is written exactly once when the known setpoint is not 6,
  whatever notifications arrive during the sequence, and no frame is written when it
  is 6. So the frame is written on every following pass until the known setpoint is 6
  at the comparison. At the end of a pass that wrote it, the known setpoint is: after
  a successful set-target write, 6 (assigned at once, without waiting for a reading),
  or the target of the last reading handled after that assignment; after a set-target
  write that raised, the known setpoint of the pass, or the target of the last reading
  handled during that write. A reading that reports another target than 6 therefore
  makes the next pass write the frame again.
\<close>

theorem reconciliation:
  assumes "is_connected c"
  shows "(pulled env = Some (Finite (44 / 10)) \<and>
     known_after (current_known_setpoint s) (inbound_interval env @ inbound_pull env) = Some 4 \<longrightarrow>
       poll_iteration (Some c) env s =
         Inr (fst (deliver s (inbound_interval env @ inbound_pull env)), [],
              snd (deliver s (inbound_interval env @ inbound_pull env)))) \<and>
    (pulled env = Some (Finite (56 / 10)) \<and>
     known_after (current_known_setpoint s) (inbound_interval env @ inbound_pull env) = Some 6 \<longrightarrow>
       poll_iteration (Some c) env s =
         Inr (fst (deliver s (inbound_interval env @ inbound_pull env)), [],
              snd (deliver s (inbound_interval env @ inbound_pull env)))) \<and>
    (pulled env = Some (Finite (56 / 10)) \<and>
     known_after (current_known_setpoint s) (inbound_interval env @ inbound_pull env) \<noteq> Some 6 \<longrightarrow>
       (\<exists>s' ts. poll_iteration (Some c) env s =
                  Inr (s', if write1 (seq env) = WriteOk then [[0xFE, 0xFE, 0x04, 0x05, 0x06, 0x02, 0x0B], [0xFE, 0xFE, 0x03, 0x01, 0x02, 0x00]] else [[0xFE, 0xFE, 0x04, 0x05, 0x06, 0x02, 0x0B]], ts) \<and>
                current_known_setpoint s' =
                  (if write1 (seq env) = WriteOk
                   then known_after (Some 6)
                          (inbound_sleep1 (seq env) @ inbound_write2 (seq env) @
                           (if write2 (seq env) = WriteOk then inbound_sleep2 (seq env) else []))
                   else known_after
                          (known_after (current_known_setpoint s)
                             (inbound_interval env @ inbound_pull env))
                          (inbound_write1 (seq env))))) \<and>
    current_known_setpoint (fst (deliver s (inbound_interval env @ inbound_pull env))) =
      known_after (current_known_setpoint s) (inbound_interval env @ inbound_pull env) \<and>
    (\<forall>k. known_after k [] = k) \<and>
    (\<forall>k ds. (\<forall>d\<in>set ds. reading_of d = None) \<longrightarrow> known_after k ds = k) \<and>
    (\<forall>k ds d r. reading_of d = Some r \<longrightarrow> known_after k (ds @ [d]) = Some (target_temp r))"
proof -
  let ?K = "known_after (current_known_setpoint s) (inbound_interval env @ inbound_pull env)"
  have a: "poll_iteration (Some c) env s =
         Inr (fst (deliver s (inbound_interval env @ inbound_pull env)), [],
              snd (deliver s (inbound_interval env @ inbound_pull env)))"
    if "pulled env = Some (Finite (44 / 10))" "?K = Some 4"
    by (rule poll_iteration_same [OF assms that(1)]) (simp add: that(2))
  have b: "poll_iteration (Some c) env s =
         Inr (fst (deliver s (inbound_interval env @ inbound_pull env)), [],
              snd (deliver s (inbound_interval env @ inbound_pull env)))"
    if "pulled env = Some (Finite (56 / 10))" "?K = Some 6"
    by (rule poll_iteration_same [OF assms that(1)]) (simp add: that(2))
  have c: "\<exists>s' ts. poll_iteration (Some c) env s =
                  Inr (s', if write1 (seq env) = WriteOk then [[0xFE, 0xFE, 0x04, 0x05, 0x06, 0x02, 0x0B], [0xFE, 0xFE, 0x03, 0x01, 0x02, 0x00]] else [[0xFE, 0xFE, 0x04, 0x05, 0x06, 0x02, 0x0B]], ts) \<and>
                current_known_setpoint s' =
                  (if write1 (seq env) = WriteOk
                   then known_after (Some 6)
                          (inbound_sleep1 (seq env) @ inbound_write2 (seq env) @
                           (if write2 (seq env) = WriteOk then inbound_sleep2 (seq env) else []))
                   else known_after ?K (inbound_write1 (seq env)))"
    if "pulled env = Some (Finite (56 / 10))" "?K \<noteq> Some 6"
  proof -
    have pr: "py_round (56 / 10) = 6" by simp
    have f: "create_packet [0x05, word_of_int (py_round (56 / 10))] =
               Inr [0xFE, 0xFE, 0x04, 0x05, 0x06, 0x02, 0x0B]"
      unfolding pr by (simp add: create_packet_set_6)
    have rng: "- 128 \<le> py_round (56 / 10)" "py_round (56 / 10) \<le> 127"
      unfolding pr by simp_all
    have n: "?K \<noteq> Some (py_round (56 / 10))" unfolding pr by (rule that(2))
    show ?thesis
      by (rule poll_iteration_differs [OF assms that(1) n rng f, unfolded pr])
  qed
  have d: "current_known_setpoint (fst (deliver s (inbound_interval env @ inbound_pull env))) = ?K"
    by (rule deliver_known)
  have k1: "\<forall>k. known_after k [] = k" by simp
  have k2: "\<forall>k ds. (\<forall>d\<in>set ds. reading_of d = None) \<longrightarrow> known_after k ds = k"
    using known_after_no_reading by blast
  have k3: "\<forall>k ds d r. reading_of d = Some r \<longrightarrow> known_after k (ds @ [d]) = Some (target_temp r)"
    using known_after_last_reading by blast
  show ?thesis using a b c d k1 k2 k3 by blast
qed

theorem reconciliation_witness:
  "poll_iteration (Some \<lparr>is_connected = True\<rparr>) \<lparr>inbound_interval = [], inbound_pull = [], pulled = Some (Finite (44 / 10)),
        seq = \<lparr>write1 = WriteOk, inbound_write1 = [], inbound_sleep1 = [],
               write2 = WriteOk, inbound_write2 = [], inbound_sleep2 = []\<rparr>\<rparr> \<lparr>current_known_setpoint = Some 4, last_reported_fridge_temp = Some 2,
        last_reported_fridge_target = Some 4\<rparr> = Inr (\<lparr>current_known_setpoint = Some 4, last_reported_fridge_temp = Some 2,
        last_reported_fridge_target = Some 4\<rparr>, [], []) \<and>
   (\<exists>s' ts. poll_iteration (Some \<lparr>is_connected = True\<rparr>) \<lparr>inbound_interval = [], inbound_pull = [], pulled = Some (Finite (56 / 10)),
        seq = \<lparr>write1 = WriteOk, inbound_write1 = [], inbound_sleep1 = [],
               write2 = WriteOk, inbound_write2 = [], inbound_sleep2 = []\<rparr>\<rparr> \<lparr>current_known_setpoint = Some 4, last_reported_fridge_temp = Some 2,
        last_reported_fridge_target = Some 4\<rparr> = Inr (s', [[0xFE, 0xFE, 0x04, 0x05, 0x06, 0x02, 0x0B], [0xFE, 0xFE, 0x03, 0x01, 0x02, 0x00]], ts) \<and>
            current_known_setpoint s' = Some 6) \<and>
   poll_iteration (Some \<lparr>is_connected = True\<rparr>) \<lparr>inbound_interval = [], inbound_pull = [], pulled = Some (Finite (56 / 10)),
        seq = \<lparr>write1 = WriteOk, inbound_write1 = [], inbound_sleep1 = [],
               write2 = WriteOk, inbound_write2 = [], inbound_sleep2 = []\<rparr>\<rparr> \<lparr>current_known_setpoint = Some 6, last_reported_fridge_temp = Some 2,
        last_reported_fridge_target = Some 6\<rparr> = Inr (\<lparr>current_known_setpoint = Some 6, last_reported_fridge_temp = Some 2,
        last_reported_fridge_target = Some 6\<rparr>, [], []) \<and>
   (\<exists>s' ts. poll_iteration (Some \<lparr>is_connected = True\<rparr>) \<lparr>inbound_interval = [[0xFE, 0xFE, 0x15, 0x01, 0, 0, 0, 0, 0xFC, 0, 0, 0, 0, 0, 0, 0, 0, 0, 0x02, 0x55, 0x03, 0x07,
      0x03, 0x6F]], inbound_pull = [], pulled = Some (Finite (56 / 10)),
        seq = \<lparr>write1 = WriteOk, inbound_write1 = [], inbound_sleep1 = [],
               write2 = WriteOk, inbound_write2 = [], inbound_sleep2 = []\<rparr>\<rparr> \<lparr>current_known_setpoint = Some 6, last_reported_fridge_temp = Some 2,
        last_reported_fridge_target = Some 6\<rparr> = Inr (s', [[0xFE, 0xFE, 0x04, 0x05, 0x06, 0x02, 0x0B], [0xFE, 0xFE, 0x03, 0x01, 0x02, 0x00]], ts) \<and>
            current_known_setpoint s' = Some 6) \<and>
   known_after (Some 6) [[0xFE, 0xFE]] = Some 6"
proof -
  have r: "reading_of [0xFE, 0xFE] = None"
    by (simp add: reading_of_def parse_frame_def getitem_def)
  show ?thesis
    using reconciliation [of "\<lparr>is_connected = True\<rparr>" "\<lparr>inbound_interval = [], inbound_pull = [], pulled = Some (Finite (44 / 10)),
        seq = \<lparr>write1 = WriteOk, inbound_write1 = [], inbound_sleep1 = [],
               write2 = WriteOk, inbound_write2 = [], inbound_sleep2 = []\<rparr>\<rparr>" "\<lparr>current_known_setpoint = Some 4, last_reported_fridge_temp = Some 2,
        last_reported_fridge_target = Some 4\<rparr>"]
      reconciliation [of "\<lparr>is_connected = True\<rparr>" "\<lparr>inbound_interval = [], inbound_pull = [], pulled = Some (Finite (56 / 10)),
        seq = \<lparr>write1 = WriteOk, inbound_write1 = [], inbound_sleep1 = [],
               write2 = WriteOk, inbound_write2 = [], inbound_sleep2 = []\<rparr>\<rparr>" "\<lparr>current_known_setpoint = Some 4, last_reported_fridge_temp = Some 2,
        last_reported_fridge_target = Some 4\<rparr>"]
      reconciliation [of "\<lparr>is_connected = True\<rparr>" "\<lparr>inbound_interval = [], inbound_pull = [], pulled = Some (Finite (56 / 10)),
        seq = \<lparr>write1 = WriteOk, inbound_write1 = [], inbound_sleep1 = [],
               write2 = WriteOk, inbound_write2 = [], inbound_sleep2 = []\<rparr>\<rparr>" "\<lparr>current_known_setpoint = Some 6, last_reported_fridge_temp = Some 2,
        last_reported_fridge_target = Some 6\<rparr>"]
      reconciliation [of "\<lparr>is_connected = True\<rparr>" "\<lparr>inbound_interval = [[0xFE, 0xFE, 0x15, 0x01, 0, 0, 0, 0, 0xFC, 0, 0, 0, 0, 0, 0, 0, 0, 0, 0x02, 0x55, 0x03, 0x07,
      0x03, 0x6F]], inbound_pull = [], pulled = Some (Finite (56 / 10)),
        seq = \<lparr>write1 = WriteOk, inbound_write1 = [], inbound_sleep1 = [],
               write2 = WriteOk, inbound_write2 = [], inbound_sleep2 = []\<rparr>\<rparr>" "\<lparr>current_known_setpoint = Some 6, last_reported_fridge_temp = Some 2,
        last_reported_fridge_target = Some 6\<rparr>"]
    by (simp add: reading_of_example r)
qed

section \<open>Properties of connecting\<close>

lemma connect_attempts_all_fail:
  assumes "i < n" "\<And>j. i \<le> j \<Longrightarrow> j < n \<Longrightarrow> transport j = ConnectBleakError"
  shows "connect_attempts transport (int n) [i ..< n] =
           (None, concat (map (\<lambda>j. [Attempt j, Sleep 5]) [i ..< n - 1]) @ [Attempt (n - 1)])"
  using assms
proof (induction "n - i" arbitrary: i)
  case 0
  then show ?case by simp
next
  case (Suc d)
  have ti: "transport i = ConnectBleakError" using Suc.prems by simp
  have up: "[i ..< n] = i # [Suc i ..< n]" using Suc.prems(1) by (simp add: upt_conv_Cons)
  show ?case
  proof (cases "Suc i < n")
    case True
    have ih: "connect_attempts transport (int n) [Suc i ..< n] =
           (None, concat (map (\<lambda>j. [Attempt j, Sleep 5]) [Suc i ..< n - 1]) @ [Attempt (n - 1)])"
      using Suc.hyps(2) True Suc.prems(2) by (intro Suc.hyps(1)) simp_all
    have up': "[i ..< n - 1] = i # [Suc i ..< n - 1]" using True by (simp add: upt_conv_Cons)
    have lt: "int i < int n - 1" using True by simp
    show ?thesis
      unfolding up up' by (simp add: ti lt ih)
  next
    case False
    then have n: "n = Suc i" using Suc.prems(1) by simp
    show ?thesis unfolding n by (simp add: ti)
  qed
qed

lemma connect_attempts_first_success:
  assumes "i \<le> k" "k < n" "transport k = ConnectOk"
    "\<And>j. i \<le> j \<Longrightarrow> j < k \<Longrightarrow> transport j = ConnectBleakError"
  shows "connect_attempts transport (int n) [i ..< n] =
           (Some \<lparr>is_connected = True\<rparr>,
            concat (map (\<lambda>j. [Attempt j, Sleep 5]) [i ..< k]) @ [Attempt k])"
  using assms
proof (induction "k - i" arbitrary: i)
  case 0
  then have i: "i = k" by simp
  have up: "[k ..< n] = k # [Suc k ..< n]" using 0 by (simp add: upt_conv_Cons)
  show ?case unfolding i up by (simp add: 0)
next
  case (Suc d)
  then have ik: "i < k" by simp
  have ti: "transport i = ConnectBleakError" using Suc.prems ik by simp
  have up: "[i ..< n] = i # [Suc i ..< n]" using ik Suc.prems(2) by (simp add: upt_conv_Cons)
  have up': "[i ..< k] = i # [Suc i ..< k]" using ik by (simp add: upt_conv_Cons)
  have lt: "int i < int n - 1" using ik Suc.prems(2) by simp
  have ih: "connect_attempts transport (int n) [Suc i ..< n] =
           (Some \<lparr>is_connected = True\<rparr>,
            concat (map (\<lambda>j. [Attempt j, Sleep 5]) [Suc i ..< k]) @ [Attempt k])"
    using Suc.hyps(2) ik Suc.prems by (intro Suc.hyps(1)) simp_all
  show ?case unfolding up up' by (simp add: ti lt ih)
qed

text \<open>
  Claim C9. Against a transport whose connect fails every time, \<open>connect_with_retry\<close>
  with \<open>max_attempts = 3\<close> makes exactly three connects, sleeps 5 seconds after the
  first and after the second and not after the third, and returns \<open>None\<close> (the
  exhausted outcome). For any positive number of attempts the same holds; and when
  attempt \<open>k\<close> is the first to succeed, the client of that attempt is returned after
  \<open>k\<close> failed connects, each followed by a sleep of 5 seconds, and no further connect
  is made.
\<close>

theorem connect_retry:
  "(0 < n \<and> (\<forall>i<n. transport i = ConnectBleakError) \<longrightarrow>
      connect_with_retry transport (int n) =
        (None, concat (map (\<lambda>j. [Attempt j, Sleep 5]) [0 ..< n - 1]) @ [Attempt (n - 1)])) \<and>
   (k < n \<and> transport k = ConnectOk \<and> (\<forall>i<k. transport i = ConnectBleakError) \<longrightarrow>
      connect_with_retry transport (int n) =
        (Some \<lparr>is_connected = True\<rparr>,
         concat (map (\<lambda>j. [Attempt j, Sleep 5]) [0 ..< k]) @ [Attempt k])) \<and>
   ((\<forall>i<3. transport i = ConnectBleakError) \<longrightarrow>
      connect_with_retry transport 3 =
        (None, [Attempt 0, Sleep 5, Attempt 1, Sleep 5, Attempt 2]))"
proof -
  have a: "connect_with_retry transport (int n) =
        (None, concat (map (\<lambda>j. [Attempt j, Sleep 5]) [0 ..< n - 1]) @ [Attempt (n - 1)])"
    if "0 < n" "\<forall>i<n. transport i = ConnectBleakError" for n
    using connect_attempts_all_fail [of 0 n transport] that
    by (simp add: connect_with_retry_def)
  have b: "connect_with_retry transport (int n) =
        (Some \<lparr>is_connected = True\<rparr>,
         concat (map (\<lambda>j. [Attempt j, Sleep 5]) [0 ..< k]) @ [Attempt k])"
    if "k < n" "transport k = ConnectOk" "\<forall>i<k. transport i = ConnectBleakError"
    using connect_attempts_first_success [of 0 k n transport] that
    by (simp add: connect_with_retry_def)
  have u: "[0 ..< 2] = [0, Suc 0]" by (simp add: upt_conv_Cons)
  have c: "connect_with_retry transport 3 =
        (None, [Attempt 0, Sleep 5, Attempt 1, Sleep 5, Attempt 2])"
    if "\<forall>i<3. transport i = ConnectBleakError"
    using a [of 3] that by (simp add: u)
  show ?thesis using a [of n] b c by blast
qed

theorem connect_retry_witness:
  "connect_with_retry (\<lambda>i. ConnectBleakError) 3 =
     (None, [Attempt 0, Sleep 5, Attempt 1, Sleep 5, Attempt 2]) \<and>
   connect_with_retry (\<lambda>i. if i = 1 then ConnectOk else ConnectBleakError) 3 =
     (Some \<lparr>is_connected = True\<rparr>, [Attempt 0, Sleep 5, Attempt 1])"
  using connect_retry [of 3 "\<lambda>i. ConnectBleakError" 0]
    connect_retry [of 3 "\<lambda>i. if i = 1 then ConnectOk else ConnectBleakError" 1]
  by (simp add: upt_conv_Cons)

end
